theory Spec2Isabelle
  imports Complex_Main "HOL-Library.AList" "HOL-Library.Log_Nat"
begin

section \<open>Conventions\<close>

text \<open>
  The TypeScript sources compute with IEEE doubles. Monetary amounts and rates are modelled
  as \<^typ>\<open>real\<close>: exact arithmetic, no rounding, no NaN. Where the source meets an
  infinity on a path the simulator can take (the unbounded last tax bracket, a quotient by
  a zero balance in the gain ratio) the case is written out. \<open>Math.pow\<close> with an integer
  exponent is \<open>powi\<close>; they differ only for base 0 with a negative exponent (an inflation
  rate of -1 and a benefit that starts before the current age), where JavaScript gives
  \<open>Infinity\<close>. The ages and calendar years of a profile are modelled as \<^typ>\<open>int\<close>,
  and the simulator's ages are a retirement or current age plus a loop index; the two
  functions of the minimum distribution take the age as a JavaScript number, a
  \<^typ>\<open>real\<close>. \<open>new Date().getFullYear()\<close> is the argument \<open>currentYear\<close>. An optional
  field is an \<open>option\<close>; a \<open>Record<string, number>\<close> is an association list in
  insertion order, as a JavaScript object keeps its keys (account ids are ordinary property
  names; an id such as \<open>__proto__\<close>, which an object does not store as a property of its
  own, is outside the model).

  Where a property depends on the rounding of doubles, the withdrawal function is given a
  second time with every arithmetic operation rounded (section Double precision).
\<close>

section \<open>Data model (src/types/index.ts)\<close>

text \<open>
  \<open>Account\<close> and \<open>Profile\<close> carry the fields the withdrawal simulator reads (and the
  account's name and balance); the contribution and employer-match fields of \<open>Account\<close>
  and the name, income, spending and home-buyer fields of \<open>Profile\<close>, which only the
  accumulation phase and the forms read, are left out, and so are the yearly balances and
  the breakdowns of \<open>AccumulationResult\<close>. A spouse is a \<open>Profile\<close> without a spouse of
  its own.
\<close>

datatype AccountType = rrsp | tfsa | non_registered | fhsa

datatype FilingStatus = single

datatype TaxTreatment = pretax | tax_free | taxable

datatype Owner = owner_primary | owner_spouse

record Account =
  a_id :: string
  a_name :: string
  a_type :: AccountType
  a_owner :: Owner
  a_balance :: real

record Person =
  currentAge :: int
  retirementAge :: int
  lifeExpectancy :: int
  filingStatus :: FilingStatus
  provinceTaxRate :: real
  cppOasBenefit :: "real option"
  cppOasStartAge :: "int option"

record Profile = Person +
  spouse :: "Person option"

record Assumptions =
  inflationRate :: real
  safeWithdrawalRate :: real
  retirementReturnRate :: real

record AccumulationResult =
  finalBalances :: "(string \<times> real) list"
  totalAtRetirement :: real
  totalAtRetirementReal :: real

record YearlyWithdrawal =
  y_age :: int
  y_year :: int
  withdrawals :: "(string \<times> real) list"
  remainingBalances :: "(string \<times> real) list"
  totalWithdrawal :: real
  cppOasIncome :: real
  grossIncome :: real
  federalTax :: real
  provincialTax :: real
  totalTax :: real
  afterTaxIncome :: real
  y_targetSpending :: real
  rmdAmount :: real
  totalRemainingBalance :: real

record RetirementResult =
  yearlyWithdrawals :: "YearlyWithdrawal list"
  portfolioDepletionAge :: "int option"
  lifetimeTaxesPaid :: real
  sustainableMonthlyWithdrawal :: real
  sustainableAnnualWithdrawal :: real
  sustainableMonthlyWithdrawalNominal :: real
  sustainableAnnualWithdrawalNominal :: real
  accountDepletionAges :: "(string \<times> int option) list"

record TaxBracket =
  bmin :: real
  bmax :: "real option"
  rate :: real

record RRIFEntry =
  e_age :: real
  factor :: real

fun getTaxTreatment :: "AccountType \<Rightarrow> TaxTreatment" where
  "getTaxTreatment rrsp = pretax"
| "getTaxTreatment tfsa = tax_free"
| "getTaxTreatment fhsa = tax_free"
| "getTaxTreatment non_registered = taxable"

definition isPreTax :: "AccountType \<Rightarrow> bool" where
  "isPreTax t = (t = rrsp)"

section \<open>Constants (src/utils/constants.ts)\<close>

text \<open>The upper bound \<open>Infinity\<close> of the last bracket is \<open>None\<close>.\<close>

definition TAX_BRACKETS_FEDERAL :: "TaxBracket list" where
  "TAX_BRACKETS_FEDERAL =
    [\<lparr>bmin = 0, bmax = Some 57375, rate = 0.15\<rparr>,
     \<lparr>bmin = 57375, bmax = Some 114750, rate = 0.205\<rparr>,
     \<lparr>bmin = 114750, bmax = Some 177882, rate = 0.26\<rparr>,
     \<lparr>bmin = 177882, bmax = Some 253414, rate = 0.29\<rparr>,
     \<lparr>bmin = 253414, bmax = None, rate = 0.33\<rparr>]"

definition TAX_BRACKETS_PROVINCIAL :: "TaxBracket list" where
  "TAX_BRACKETS_PROVINCIAL =
    [\<lparr>bmin = 0, bmax = Some 52886, rate = 0.0505\<rparr>,
     \<lparr>bmin = 52886, bmax = Some 105775, rate = 0.0915\<rparr>,
     \<lparr>bmin = 105775, bmax = Some 150000, rate = 0.1116\<rparr>,
     \<lparr>bmin = 150000, bmax = Some 220000, rate = 0.1216\<rparr>,
     \<lparr>bmin = 220000, bmax = None, rate = 0.1316\<rparr>]"

definition ONTARIO_SURTAX_1_THRESHOLD :: real where "ONTARIO_SURTAX_1_THRESHOLD = 5710"
definition ONTARIO_SURTAX_1_RATE :: real where "ONTARIO_SURTAX_1_RATE = 0.20"
definition ONTARIO_SURTAX_2_THRESHOLD :: real where "ONTARIO_SURTAX_2_THRESHOLD = 7307"
definition ONTARIO_SURTAX_2_RATE :: real where "ONTARIO_SURTAX_2_RATE = 0.36"

definition BASIC_PERSONAL_AMOUNT :: real where "BASIC_PERSONAL_AMOUNT = 16129"

definition CAPITAL_GAINS_INCLUSION_RATE_BASE :: real where
  "CAPITAL_GAINS_INCLUSION_RATE_BASE = 0.50"

definition RRIF_START_AGE :: real where "RRIF_START_AGE = 72"

definition RRIF_TABLE :: "RRIFEntry list" where
  "RRIF_TABLE =
    [\<lparr>e_age = 70, factor = 0.0500\<rparr>, \<lparr>e_age = 71, factor = 0.0528\<rparr>,
     \<lparr>e_age = 72, factor = 0.0540\<rparr>, \<lparr>e_age = 73, factor = 0.0553\<rparr>,
     \<lparr>e_age = 74, factor = 0.0567\<rparr>, \<lparr>e_age = 75, factor = 0.0582\<rparr>,
     \<lparr>e_age = 76, factor = 0.0598\<rparr>, \<lparr>e_age = 77, factor = 0.0617\<rparr>,
     \<lparr>e_age = 78, factor = 0.0636\<rparr>, \<lparr>e_age = 79, factor = 0.0658\<rparr>,
     \<lparr>e_age = 80, factor = 0.0682\<rparr>, \<lparr>e_age = 81, factor = 0.0708\<rparr>,
     \<lparr>e_age = 82, factor = 0.0738\<rparr>, \<lparr>e_age = 83, factor = 0.0771\<rparr>,
     \<lparr>e_age = 84, factor = 0.0808\<rparr>, \<lparr>e_age = 85, factor = 0.0851\<rparr>,
     \<lparr>e_age = 86, factor = 0.0899\<rparr>, \<lparr>e_age = 87, factor = 0.0955\<rparr>,
     \<lparr>e_age = 88, factor = 0.1021\<rparr>, \<lparr>e_age = 89, factor = 0.1099\<rparr>,
     \<lparr>e_age = 90, factor = 0.1192\<rparr>, \<lparr>e_age = 91, factor = 0.1306\<rparr>,
     \<lparr>e_age = 92, factor = 0.1449\<rparr>, \<lparr>e_age = 93, factor = 0.1634\<rparr>,
     \<lparr>e_age = 94, factor = 0.1879\<rparr>, \<lparr>e_age = 95, factor = 0.2000\<rparr>]"

text \<open>
  The age is a JavaScript number, and the table entry is found by \<open>===\<close>: an age that is
  not a whole number finds no entry.
\<close>

definition getRRIFFactor :: "real \<Rightarrow> real" where
  "getRRIFFactor age =
    (if age < RRIF_START_AGE then 0
     else case find (\<lambda>e. e_age e = age) RRIF_TABLE of
            Some entry \<Rightarrow> factor entry
          | None \<Rightarrow> if age \<ge> 95 then 0.20 else 0)"

section \<open>Tax engine (src/utils/taxes.ts)\<close>

text \<open>
  The loop of \<open>calculateBracketTax\<close>, with its three local variables as arguments.
  \<open>previousMax\<close> is \<open>None\<close> once an unbounded bracket has been passed: a later
  bounded bracket then has width \<open>-Infinity\<close> and the loop breaks (a second unbounded
  bracket, which no table of the program has, is treated the same way).
\<close>

fun bracketLoop :: "TaxBracket list \<Rightarrow> real \<Rightarrow> real \<Rightarrow> real option \<Rightarrow> real" where
  "bracketLoop [] tax remainingIncome previousMax = tax"
| "bracketLoop (bracket # brackets) tax remainingIncome previousMax =
    (case previousMax of
       None \<Rightarrow> tax
     | Some pm \<Rightarrow>
        (let incomeInBracket =
               (case bmax bracket of
                  None \<Rightarrow> remainingIncome
                | Some m \<Rightarrow> min remainingIncome (m - pm))
         in if incomeInBracket \<le> 0 then tax
            else bracketLoop brackets (tax + incomeInBracket * rate bracket)
                   (remainingIncome - incomeInBracket) (bmax bracket)))"

definition calculateBracketTax :: "real \<Rightarrow> TaxBracket list \<Rightarrow> real" where
  "calculateBracketTax taxableIncome brackets =
    (if taxableIncome \<le> 0 then 0 else bracketLoop brackets 0 taxableIncome (Some 0))"

definition calculateRawFederalTax :: "real \<Rightarrow> real" where
  "calculateRawFederalTax taxableIncome = calculateBracketTax taxableIncome TAX_BRACKETS_FEDERAL"

definition calculateTotalFederalTax :: "real \<Rightarrow> real \<Rightarrow> FilingStatus \<Rightarrow> real" where
  "calculateTotalFederalTax ordinaryIncome capitalGains fs =
    (let taxableCapitalGains = capitalGains * CAPITAL_GAINS_INCLUSION_RATE_BASE;
         totalTaxableIncome = ordinaryIncome + taxableCapitalGains
     in if totalTaxableIncome \<le> 0 then 0
        else let tax = calculateRawFederalTax totalTaxableIncome;
                 bpaCredit = BASIC_PERSONAL_AMOUNT * rate (hd TAX_BRACKETS_FEDERAL)
             in max 0 (tax - bpaCredit))"

text \<open>The third argument is the source's \<open>_flatRate\<close>, which the body never reads.\<close>

definition calculateProvincialTax :: "real \<Rightarrow> real \<Rightarrow> real \<Rightarrow> real" where
  "calculateProvincialTax ordinaryIncome capitalGains flatRate =
    (let taxableCapitalGains = capitalGains * CAPITAL_GAINS_INCLUSION_RATE_BASE;
         totalTaxableIncome = ordinaryIncome + taxableCapitalGains
     in if totalTaxableIncome \<le> 0 then 0
        else
          let basicTax = calculateBracketTax totalTaxableIncome TAX_BRACKETS_PROVINCIAL;
              provincialBPA = 11865;
              provincialCredit = provincialBPA * rate (hd TAX_BRACKETS_PROVINCIAL);
              basicTax = max 0 (basicTax - provincialCredit);
              surtax = 0;
              surtax = (if basicTax > ONTARIO_SURTAX_1_THRESHOLD
                        then surtax + (basicTax - ONTARIO_SURTAX_1_THRESHOLD) * ONTARIO_SURTAX_1_RATE
                        else surtax);
              surtax = (if basicTax > ONTARIO_SURTAX_2_THRESHOLD
                        then surtax + (basicTax - ONTARIO_SURTAX_2_THRESHOLD) * ONTARIO_SURTAX_2_RATE
                        else surtax);
              healthPremium =
                (if totalTaxableIncome > 200000 then 900
                 else if totalTaxableIncome > 72000 then 750
                 else if totalTaxableIncome > 48000 then 600
                 else if totalTaxableIncome > 36000 then 450
                 else if totalTaxableIncome > 20000 then 300
                 else 0)
          in basicTax + surtax + healthPremium)"

section \<open>Withdrawal simulator (src/utils/withdrawals.ts)\<close>

subsection \<open>Minimum distribution\<close>

definition calculateRRIFMinimum :: "real \<Rightarrow> real \<Rightarrow> real" where
  "calculateRRIFMinimum age rrspBalance =
    (if age < RRIF_START_AGE then 0 else rrspBalance * getRRIFFactor age)"

subsection \<open>Working state\<close>

record AccountState =
  s_id :: string
  s_type :: AccountType
  s_owner :: Owner
  balance :: real
  costBasis :: real

record WithdrawalResult =
  total :: real
  rrspWithdrawal :: real
  taxFreeWithdrawal :: real
  taxableWithdrawal :: real
  taxableGains :: real
  byAccount :: "(string \<times> real) list"

text \<open>
  The locals \<open>remainingNeed\<close> and \<open>rrifRemaining\<close> of
  \<open>performTaxOptimizedWithdrawal\<close> and the depletion map it mutates, carried
  together with the result under construction.
\<close>

record WithdrawalState = WithdrawalResult +
  remainingNeed :: real
  rrifRemaining :: real
  depletionAges :: "(string \<times> int option) list"

text \<open>\<open>m[k] || 0\<close>: a missing key and a stored zero both read as zero.\<close>

definition lookup0 :: "(string \<times> real) list \<Rightarrow> string \<Rightarrow> real" where
  "lookup0 m k = (case map_of m k of None \<Rightarrow> 0 | Some v \<Rightarrow> v)"

text \<open>
  \<open>m[k] += w\<close>. On a key that is not in the object JavaScript stores NaN; the model
  leaves the object as it is there, so that nothing is gained from a missing key. Every
  key the simulator adds to has been initialised before.
\<close>

definition addTo :: "string \<Rightarrow> real \<Rightarrow> (string \<times> real) list \<Rightarrow> (string \<times> real) list" where
  "addTo k w m = (case map_of m k of Some v \<Rightarrow> AList.update k (v + w) m | None \<Rightarrow> m)"

text \<open>
  \<open>if (acc.balance <= 0 && accountDepletionAges[acc.id] === null) accountDepletionAges[acc.id] = age\<close>:
  \<open>Some None\<close> is a stored \<open>null\<close>, \<open>None\<close> a missing key.
\<close>

definition recordDepletion ::
  "int \<Rightarrow> AccountState \<Rightarrow> (string \<times> int option) list \<Rightarrow> (string \<times> int option) list" where
  "recordDepletion age acc d =
    (if balance acc \<le> 0 \<and> map_of d (s_id acc) = Some None
     then AList.update (s_id acc) (Some age) d else d)"

text \<open>
  \<open>for (const acc of accountStates.filter(sel)) { if (brk) break; body }\<close>.
  The filtered array holds the same objects as \<open>accountStates\<close>, so the body's
  assignments to \<open>acc\<close> are updates of the list at that position.
\<close>

fun forAccounts ::
  "(AccountState \<Rightarrow> bool) \<Rightarrow> (WithdrawalState \<Rightarrow> bool) \<Rightarrow>
   (AccountState \<Rightarrow> WithdrawalState \<Rightarrow> AccountState \<times> WithdrawalState) \<Rightarrow>
   AccountState list \<Rightarrow> WithdrawalState \<Rightarrow> AccountState list \<times> WithdrawalState" where
  "forAccounts sel brk body [] s = ([], s)"
| "forAccounts sel brk body (acc # accs) s =
    (if \<not> sel acc then
       (case forAccounts sel brk body accs s of (accs', s') \<Rightarrow> (acc # accs', s'))
     else if brk s then (acc # accs, s)
     else
       (case body acc s of (acc', s1) \<Rightarrow>
         (case forAccounts sel brk body accs s1 of (accs', s2) \<Rightarrow> (acc' # accs', s2))))"

subsection \<open>The five withdrawal steps\<close>

text \<open>Step 1: mandatory RRIF minimum.\<close>

definition rrifBody :: "int \<Rightarrow> AccountState \<Rightarrow> WithdrawalState \<Rightarrow> AccountState \<times> WithdrawalState" where
  "rrifBody age acc s =
    (let withdrawal = min (rrifRemaining s) (balance acc);
         acc' = acc\<lparr>balance := balance acc - withdrawal\<rparr>
     in (acc',
         s\<lparr>byAccount := addTo (s_id acc) withdrawal (byAccount s),
           rrspWithdrawal := rrspWithdrawal s + withdrawal,
           total := total s + withdrawal,
           rrifRemaining := rrifRemaining s - withdrawal,
           remainingNeed := max 0 (remainingNeed s - withdrawal),
           depletionAges := recordDepletion age acc' (depletionAges s)\<rparr>))"

text \<open>Step 2: fill the first federal bracket (doubled when there is a spouse).\<close>

definition bracketFillBody ::
  "bool \<Rightarrow> real \<Rightarrow> int \<Rightarrow> AccountState \<Rightarrow> WithdrawalState \<Rightarrow> AccountState \<times> WithdrawalState" where
  "bracketFillBody hasSpouse otherIncome age acc s =
    (let bracket1Max = the (bmax (hd TAX_BRACKETS_FEDERAL));
         householdOrdinaryIncome = rrspWithdrawal s + otherIncome;
         householdBracketCap = bracket1Max * (if hasSpouse then 2 else 1);
         roomInHouseholdBracket = max 0 (householdBracketCap - householdOrdinaryIncome);
         withdrawal = min roomInHouseholdBracket (min (remainingNeed s) (balance acc))
     in if withdrawal > 0 then
          (let acc' = acc\<lparr>balance := balance acc - withdrawal\<rparr>
           in (acc',
               s\<lparr>byAccount := addTo (s_id acc) withdrawal (byAccount s),
                 rrspWithdrawal := rrspWithdrawal s + withdrawal,
                 total := total s + withdrawal,
                 remainingNeed := remainingNeed s - withdrawal,
                 depletionAges := recordDepletion age acc' (depletionAges s)\<rparr>))
        else (acc, s))"

text \<open>Step 3: tax-free accounts.\<close>

definition taxFreeBody :: "int \<Rightarrow> AccountState \<Rightarrow> WithdrawalState \<Rightarrow> AccountState \<times> WithdrawalState" where
  "taxFreeBody age acc s =
    (let withdrawal = min (remainingNeed s) (balance acc);
         acc' = acc\<lparr>balance := balance acc - withdrawal\<rparr>
     in (acc',
         s\<lparr>byAccount := addTo (s_id acc) withdrawal (byAccount s),
           taxFreeWithdrawal := taxFreeWithdrawal s + withdrawal,
           total := total s + withdrawal,
           remainingNeed := remainingNeed s - withdrawal,
           depletionAges := recordDepletion age acc' (depletionAges s)\<rparr>))"

text \<open>
  Step 4: taxable accounts. With a positive cost basis and a zero balance the source's
  quotient is \<open>Infinity\<close> and \<open>Math.max(0, 1 - Infinity)\<close> is 0.
\<close>

definition gainRatio :: "AccountState \<Rightarrow> real" where
  "gainRatio acc =
    (if costBasis acc > 0
     then (if balance acc = 0 then 0 else max 0 (1 - costBasis acc / balance acc))
     else 0.5)"

definition taxableBody :: "int \<Rightarrow> AccountState \<Rightarrow> WithdrawalState \<Rightarrow> AccountState \<times> WithdrawalState" where
  "taxableBody age acc s =
    (let withdrawal = min (remainingNeed s) (balance acc);
         gains = withdrawal * gainRatio acc;
         newBalance = balance acc - withdrawal;
         acc' = acc\<lparr>balance := newBalance,
                  costBasis := (if newBalance > 0
                                then costBasis acc * (newBalance / (newBalance + withdrawal))
                                else 0)\<rparr>
     in (acc',
         s\<lparr>byAccount := addTo (s_id acc) withdrawal (byAccount s),
           taxableWithdrawal := taxableWithdrawal s + withdrawal,
           taxableGains := taxableGains s + gains,
           total := total s + withdrawal,
           remainingNeed := remainingNeed s - withdrawal,
           depletionAges := recordDepletion age acc' (depletionAges s)\<rparr>))"

text \<open>Step 5: further RRSP withdrawals when the need is still open.\<close>

definition extraRrspBody :: "int \<Rightarrow> AccountState \<Rightarrow> WithdrawalState \<Rightarrow> AccountState \<times> WithdrawalState" where
  "extraRrspBody age acc s =
    (let withdrawal = min (remainingNeed s) (balance acc);
         acc' = acc\<lparr>balance := balance acc - withdrawal\<rparr>
     in (acc',
         s\<lparr>byAccount := addTo (s_id acc) withdrawal (byAccount s),
           rrspWithdrawal := rrspWithdrawal s + withdrawal,
           total := total s + withdrawal,
           remainingNeed := remainingNeed s - withdrawal,
           depletionAges := recordDepletion age acc' (depletionAges s)\<rparr>))"

definition initialWithdrawalState ::
  "AccountState list \<Rightarrow> real \<Rightarrow> real \<Rightarrow> real \<Rightarrow> (string \<times> int option) list \<Rightarrow> WithdrawalState" where
  "initialWithdrawalState accountStates targetSpending rrifMinimum otherIncome deplAges =
    \<lparr>total = 0, rrspWithdrawal = 0, taxFreeWithdrawal = 0, taxableWithdrawal = 0,
     taxableGains = 0,
     byAccount = foldl (\<lambda>m acc. AList.update (s_id acc) 0 m) [] accountStates,
     remainingNeed = max 0 (targetSpending - otherIncome),
     rrifRemaining = rrifMinimum,
     depletionAges = deplAges\<rparr>"

text \<open>
  The function returns the mutated account states next to the result; the depletion map
  \<open>accountDepletionAges\<close> it is given (\<open>deplAges\<close>) and mutates is the \<open>depletionAges\<close> field of the returned state.
\<close>

definition performTaxOptimizedWithdrawal ::
  "AccountState list \<Rightarrow> real \<Rightarrow> real \<Rightarrow> real \<Rightarrow> Profile \<Rightarrow> (string \<times> int option) list \<Rightarrow> int
   \<Rightarrow> AccountState list \<times> WithdrawalState" where
  "performTaxOptimizedWithdrawal accountStates targetSpending rrifMinimum otherIncome profile
      deplAges age =
    (let s0 = initialWithdrawalState accountStates targetSpending rrifMinimum otherIncome
                deplAges;
         isRrsp = (\<lambda>acc. isPreTax (s_type acc));
         isTaxFree = (\<lambda>acc. getTaxTreatment (s_type acc) = tax_free);
         isTaxable = (\<lambda>acc. getTaxTreatment (s_type acc) = taxable);
         needMet = (\<lambda>s. remainingNeed s \<le> 0);
         (a1, s1) = forAccounts isRrsp (\<lambda>s. rrifRemaining s \<le> 0) (rrifBody age) accountStates s0;
         (a2, s2) = forAccounts isRrsp needMet
                      (bracketFillBody (spouse profile \<noteq> None) otherIncome age) a1 s1;
         (a3, s3) = forAccounts isTaxFree needMet (taxFreeBody age) a2 s2;
         (a4, s4) = forAccounts isTaxable needMet (taxableBody age) a3 s3
     in if remainingNeed s4 > 0
        then forAccounts isRrsp needMet (extraRrspBody age) a4 s4
        else (a4, s4))"

subsection \<open>The yearly loop\<close>

record SimState =
  st_accountStates :: "AccountState list"
  st_targetSpending :: real
  st_yearlyWithdrawals :: "YearlyWithdrawal list"
  st_lifetimeTaxesPaid :: real
  st_portfolioDepletionAge :: "int option"
  st_accountDepletionAges :: "(string \<times> int option) list"

definition sumBalances :: "AccountState list \<Rightarrow> real" where
  "sumBalances accs = foldl (\<lambda>sum acc. sum + balance acc) 0 accs"

definition sumWithdrawn :: "(string \<times> real) list \<Rightarrow> AccountState list \<Rightarrow> real" where
  "sumWithdrawn by accs = foldl (\<lambda>sum a. sum + lookup0 by (s_id a)) 0 accs"

text \<open>
  \<open>benefit && startAge && personAge >= startAge\<close>, then
  \<open>benefit * Math.pow(1 + inflationRate, yearsFromNow)\<close>.
\<close>

definition cppOas :: "real option \<Rightarrow> int option \<Rightarrow> int \<Rightarrow> real \<Rightarrow> int \<Rightarrow> real" where
  "cppOas benefit startAge personAge infl yearsFromNow =
    (case benefit of
       None \<Rightarrow> 0
     | Some b \<Rightarrow>
        (case startAge of
           None \<Rightarrow> 0
         | Some sa \<Rightarrow>
            if b \<noteq> 0 \<and> sa \<noteq> 0 \<and> personAge \<ge> sa
            then b * ((1 + infl) powi yearsFromNow) else 0))"

definition initialAccountStates :: "Account list \<Rightarrow> AccumulationResult \<Rightarrow> AccountState list" where
  "initialAccountStates accounts accumulationResult =
    map (\<lambda>account.
          \<lparr>s_id = a_id account, s_type = a_type account, s_owner = a_owner account,
           balance = lookup0 (finalBalances accumulationResult) (a_id account),
           costBasis = (if getTaxTreatment (a_type account) = taxable
                        then lookup0 (finalBalances accumulationResult) (a_id account) * 0.5
                        else 0)\<rparr>) accounts"

definition initialState :: "Account list \<Rightarrow> Assumptions \<Rightarrow> AccumulationResult \<Rightarrow> SimState" where
  "initialState accounts assumptions accumulationResult =
    \<lparr>st_accountStates = initialAccountStates accounts accumulationResult,
     st_targetSpending = totalAtRetirement accumulationResult * safeWithdrawalRate assumptions,
     st_yearlyWithdrawals = [],
     st_lifetimeTaxesPaid = 0,
     st_portfolioDepletionAge = None,
     st_accountDepletionAges = foldl (\<lambda>m account. AList.update (a_id account) None m) [] accounts\<rparr>"

text \<open>One iteration of the loop over \<open>i\<close>; \<open>currentYear\<close> is the calendar year of the run.\<close>

definition yearStep :: "Profile \<Rightarrow> Assumptions \<Rightarrow> int \<Rightarrow> nat \<Rightarrow> SimState \<Rightarrow> SimState" where
  "yearStep profile assumptions currentYear i st =
    (let retirementStartYear = currentYear + (retirementAge profile - currentAge profile);
         age = retirementAge profile + int i;
         year = retirementStartYear + int i;
         totalRemaining = sumBalances (st_accountStates st);
         portfolioDepletionAge =
           (if totalRemaining \<le> 0 \<and> st_portfolioDepletionAge st = None
            then Some age else st_portfolioDepletionAge st);
         primaryCppOas = cppOas (cppOasBenefit profile) (cppOasStartAge profile) age
                           (inflationRate assumptions) (age - currentAge profile);
         spouseCppOas =
           (case spouse profile of
              None \<Rightarrow> 0
            | Some sp \<Rightarrow> cppOas (cppOasBenefit sp) (cppOasStartAge sp)
                          (currentAge sp + (year - currentYear))
                          (inflationRate assumptions) (year - currentYear));
         totalCppOas = primaryCppOas + spouseCppOas;
         isOwnRrsp = (\<lambda>ow a. s_owner a = ow \<and> isPreTax (s_type a));
         primaryRRIF = calculateRRIFMinimum (of_int age)
                         (sumBalances (filter (isOwnRrsp owner_primary) (st_accountStates st)));
         spouseAge = (case spouse profile of
                        Some sp \<Rightarrow> currentAge sp + (year - currentYear)
                      | None \<Rightarrow> age);
         spouseRRIF = calculateRRIFMinimum (of_int spouseAge)
                        (sumBalances (filter (isOwnRrsp owner_spouse) (st_accountStates st)));
         totalRRIF = primaryRRIF + spouseRRIF;
         (withdrawn, w) = performTaxOptimizedWithdrawal (st_accountStates st)
                            (st_targetSpending st) totalRRIF totalCppOas profile
                            (st_accountDepletionAges st) age;
         accountStates = map (\<lambda>acc. acc\<lparr>balance := balance acc *
                                  (1 + retirementReturnRate assumptions)\<rparr>) withdrawn;
         totalTaxableWithdrawal = taxableWithdrawal w;
         primaryTaxableWithdrawal = sumWithdrawn (byAccount w)
             (filter (\<lambda>a. s_owner a = owner_primary \<and> getTaxTreatment (s_type a) = taxable)
                accountStates);
         primaryGains = (if totalTaxableWithdrawal > 0
                         then taxableGains w * (primaryTaxableWithdrawal / totalTaxableWithdrawal)
                         else 0);
         spouseGains = taxableGains w - primaryGains;
         primaryRRSPWithdrawal = sumWithdrawn (byAccount w)
             (filter (isOwnRrsp owner_primary) accountStates);
         primaryOrdinaryIncome = primaryRRSPWithdrawal + primaryCppOas;
         primaryFederalTax = calculateTotalFederalTax primaryOrdinaryIncome primaryGains single;
         primaryProvincialTax = calculateProvincialTax primaryOrdinaryIncome primaryGains
                                  (provinceTaxRate profile);
         spouseRRSPWithdrawal = sumWithdrawn (byAccount w)
             (filter (isOwnRrsp owner_spouse) accountStates);
         spouseOrdinaryIncome = spouseRRSPWithdrawal + spouseCppOas;
         spouseFederalTax = calculateTotalFederalTax spouseOrdinaryIncome spouseGains single;
         spouseProvincialTax = calculateProvincialTax spouseOrdinaryIncome spouseGains
             (case spouse profile of Some sp \<Rightarrow> provinceTaxRate sp
                                   | None \<Rightarrow> provinceTaxRate profile);
         totalTax = primaryFederalTax + primaryProvincialTax + spouseFederalTax
                    + spouseProvincialTax;
         grossWithdrawal = total w;
         grossIncome = grossWithdrawal + totalCppOas;
         afterTaxIncome = grossIncome - totalTax;
         remainingBalances = foldl (\<lambda>m acc. AList.update (s_id acc) (balance acc) m) []
                               accountStates;
         yearRecord = \<lparr>y_age = age, y_year = year,
                   withdrawals = byAccount w,
                   remainingBalances = remainingBalances,
                   totalWithdrawal = grossWithdrawal,
                   cppOasIncome = totalCppOas,
                   grossIncome = grossIncome,
                   federalTax = primaryFederalTax + spouseFederalTax,
                   provincialTax = primaryProvincialTax + spouseProvincialTax,
                   totalTax = totalTax,
                   afterTaxIncome = afterTaxIncome,
                   y_targetSpending = st_targetSpending st,
                   rmdAmount = totalRRIF,
                   totalRemainingBalance = sumBalances accountStates\<rparr>
     in \<lparr>st_accountStates = accountStates,
         st_targetSpending = st_targetSpending st * (1 + inflationRate assumptions),
         st_yearlyWithdrawals = st_yearlyWithdrawals st @ [yearRecord],
         st_lifetimeTaxesPaid = st_lifetimeTaxesPaid st + totalTax,
         st_portfolioDepletionAge = portfolioDepletionAge,
         st_accountDepletionAges = depletionAges w\<rparr>)"

text \<open>The state after the first \<open>n\<close> iterations (\<open>i = 0, ..., n - 1\<close>).\<close>

definition simulateYears ::
  "Account list \<Rightarrow> Profile \<Rightarrow> Assumptions \<Rightarrow> AccumulationResult \<Rightarrow> int \<Rightarrow> nat \<Rightarrow> SimState" where
  "simulateYears accounts profile assumptions accumulationResult currentYear n =
    fold (yearStep profile assumptions currentYear) [0..<n]
      (initialState accounts assumptions accumulationResult)"

text \<open>
  \<open>for (let i = 0; i <= retirementYears; i++)\<close> runs \<open>retirementYears + 1\<close> times,
  and not at all when \<open>retirementYears\<close> is negative.
\<close>

definition calculateWithdrawals ::
  "Account list \<Rightarrow> Profile \<Rightarrow> Assumptions \<Rightarrow> AccumulationResult \<Rightarrow> int \<Rightarrow> RetirementResult" where
  "calculateWithdrawals accounts profile assumptions accumulationResult currentYear =
    (let retirementYears = lifeExpectancy profile - retirementAge profile;
         st = simulateYears accounts profile assumptions accumulationResult currentYear
                (nat (retirementYears + 1));
         sustainableAnnualWithdrawal =
           totalAtRetirementReal accumulationResult * safeWithdrawalRate assumptions;
         sustainableMonthlyWithdrawal = sustainableAnnualWithdrawal / 12;
         sustainableAnnualWithdrawalNominal =
           totalAtRetirement accumulationResult * safeWithdrawalRate assumptions;
         sustainableMonthlyWithdrawalNominal = sustainableAnnualWithdrawalNominal / 12
     in \<lparr>yearlyWithdrawals = st_yearlyWithdrawals st,
         portfolioDepletionAge = st_portfolioDepletionAge st,
         lifetimeTaxesPaid = st_lifetimeTaxesPaid st,
         sustainableMonthlyWithdrawal = sustainableMonthlyWithdrawal,
         sustainableAnnualWithdrawal = sustainableAnnualWithdrawal,
         sustainableMonthlyWithdrawalNominal = sustainableMonthlyWithdrawalNominal,
         sustainableAnnualWithdrawalNominal = sustainableAnnualWithdrawalNominal,
         accountDepletionAges = st_accountDepletionAges st\<rparr>)"

section \<open>Double precision\<close>

text \<open>
  \<open>fl x\<close> is the IEEE-754 double (binary64) nearest to \<open>x\<close>, ties to even: 53
  significant bits, and below \<open>2 powi (- 1022)\<close> the fixed spacing \<open>2 powi (- 1074)\<close> of the
  subnormal numbers. \<open>binaryExponent x\<close> is the \<open>e\<close> with
  \<open>2 powi e \<le> \<bar>x\<bar> < 2 powi (e + 1)\<close>. Overflow to \<open>Infinity\<close> (magnitudes from
  \<open>2 powi 1024\<close>), NaN and the sign of zero are not modelled. A decimal literal of the
  source denotes the double nearest to it, and each \<open>+\<close>, \<open>-\<close>, \<open>*\<close>, \<open>/\<close> of the source
  returns \<open>fl\<close> of the exact result of its operands; \<open>Math.min\<close>, \<open>Math.max\<close> and the
  comparisons are exact.
\<close>

definition roundHalfEven :: "real \<Rightarrow> int" where
  "roundHalfEven r =
    (let f = \<lfloor>r\<rfloor>
     in if r - of_int f < 1 / 2 then f
        else if 1 / 2 < r - of_int f then f + 1
        else if even f then f else f + 1)"

definition binaryExponent :: "real \<Rightarrow> int" where
  "binaryExponent x =
    (if 1 \<le> \<bar>x\<bar> then bitlen \<lfloor>\<bar>x\<bar>\<rfloor> - 1 else - bitlen (\<lceil>1 / \<bar>x\<bar>\<rceil> - 1))"

definition fl :: "real \<Rightarrow> real" where
  "fl x =
    (if x = 0 then 0
     else (let q = 2 powi (max (binaryExponent x) (- 1022) - 52)
           in of_int (roundHalfEven (x / q)) * q))"

text \<open>
  \<open>performTaxOptimizedWithdrawal\<close> once more, statement by statement as above, with every
  arithmetic operation of the source rounded.
\<close>

definition addTo_double :: "string \<Rightarrow> real \<Rightarrow> (string \<times> real) list \<Rightarrow> (string \<times> real) list" where
  "addTo_double k w m =
    (case map_of m k of Some v \<Rightarrow> AList.update k (fl (v + w)) m | None \<Rightarrow> m)"

definition rrifBody_double ::
  "int \<Rightarrow> AccountState \<Rightarrow> WithdrawalState \<Rightarrow> AccountState \<times> WithdrawalState" where
  "rrifBody_double age acc s =
    (let withdrawal = min (rrifRemaining s) (balance acc);
         acc' = acc\<lparr>balance := fl (balance acc - withdrawal)\<rparr>
     in (acc',
         s\<lparr>byAccount := addTo_double (s_id acc) withdrawal (byAccount s),
           rrspWithdrawal := fl (rrspWithdrawal s + withdrawal),
           total := fl (total s + withdrawal),
           rrifRemaining := fl (rrifRemaining s - withdrawal),
           remainingNeed := max 0 (fl (remainingNeed s - withdrawal)),
           depletionAges := recordDepletion age acc' (depletionAges s)\<rparr>))"

definition bracketFillBody_double ::
  "bool \<Rightarrow> real \<Rightarrow> int \<Rightarrow> AccountState \<Rightarrow> WithdrawalState \<Rightarrow> AccountState \<times> WithdrawalState" where
  "bracketFillBody_double hasSpouse otherIncome age acc s =
    (let bracket1Max = the (bmax (hd TAX_BRACKETS_FEDERAL));
         householdOrdinaryIncome = fl (rrspWithdrawal s + otherIncome);
         householdBracketCap = fl (bracket1Max * (if hasSpouse then 2 else 1));
         roomInHouseholdBracket = max 0 (fl (householdBracketCap - householdOrdinaryIncome));
         withdrawal = min roomInHouseholdBracket (min (remainingNeed s) (balance acc))
     in if withdrawal > 0 then
          (let acc' = acc\<lparr>balance := fl (balance acc - withdrawal)\<rparr>
           in (acc',
               s\<lparr>byAccount := addTo_double (s_id acc) withdrawal (byAccount s),
                 rrspWithdrawal := fl (rrspWithdrawal s + withdrawal),
                 total := fl (total s + withdrawal),
                 remainingNeed := fl (remainingNeed s - withdrawal),
                 depletionAges := recordDepletion age acc' (depletionAges s)\<rparr>))
        else (acc, s))"

definition taxFreeBody_double ::
  "int \<Rightarrow> AccountState \<Rightarrow> WithdrawalState \<Rightarrow> AccountState \<times> WithdrawalState" where
  "taxFreeBody_double age acc s =
    (let withdrawal = min (remainingNeed s) (balance acc);
         acc' = acc\<lparr>balance := fl (balance acc - withdrawal)\<rparr>
     in (acc',
         s\<lparr>byAccount := addTo_double (s_id acc) withdrawal (byAccount s),
           taxFreeWithdrawal := fl (taxFreeWithdrawal s + withdrawal),
           total := fl (total s + withdrawal),
           remainingNeed := fl (remainingNeed s - withdrawal),
           depletionAges := recordDepletion age acc' (depletionAges s)\<rparr>))"

definition gainRatio_double :: "AccountState \<Rightarrow> real" where
  "gainRatio_double acc =
    (if costBasis acc > 0
     then (if balance acc = 0 then 0 else max 0 (fl (1 - fl (costBasis acc / balance acc))))
     else fl 0.5)"

definition taxableBody_double ::
  "int \<Rightarrow> AccountState \<Rightarrow> WithdrawalState \<Rightarrow> AccountState \<times> WithdrawalState" where
  "taxableBody_double age acc s =
    (let withdrawal = min (remainingNeed s) (balance acc);
         gains = fl (withdrawal * gainRatio_double acc);
         newBalance = fl (balance acc - withdrawal);
         acc' = acc\<lparr>balance := newBalance,
                  costBasis := (if newBalance > 0
                                then fl (costBasis acc * fl (newBalance / fl (newBalance + withdrawal)))
                                else 0)\<rparr>
     in (acc',
         s\<lparr>byAccount := addTo_double (s_id acc) withdrawal (byAccount s),
           taxableWithdrawal := fl (taxableWithdrawal s + withdrawal),
           taxableGains := fl (taxableGains s + gains),
           total := fl (total s + withdrawal),
           remainingNeed := fl (remainingNeed s - withdrawal),
           depletionAges := recordDepletion age acc' (depletionAges s)\<rparr>))"

definition extraRrspBody_double ::
  "int \<Rightarrow> AccountState \<Rightarrow> WithdrawalState \<Rightarrow> AccountState \<times> WithdrawalState" where
  "extraRrspBody_double age acc s =
    (let withdrawal = min (remainingNeed s) (balance acc);
         acc' = acc\<lparr>balance := fl (balance acc - withdrawal)\<rparr>
     in (acc',
         s\<lparr>byAccount := addTo_double (s_id acc) withdrawal (byAccount s),
           rrspWithdrawal := fl (rrspWithdrawal s + withdrawal),
           total := fl (total s + withdrawal),
           remainingNeed := fl (remainingNeed s - withdrawal),
           depletionAges := recordDepletion age acc' (depletionAges s)\<rparr>))"

definition initialWithdrawalState_double ::
  "AccountState list \<Rightarrow> real \<Rightarrow> real \<Rightarrow> real \<Rightarrow> (string \<times> int option) list \<Rightarrow> WithdrawalState" where
  "initialWithdrawalState_double accountStates targetSpending rrifMinimum otherIncome deplAges =
    \<lparr>total = 0, rrspWithdrawal = 0, taxFreeWithdrawal = 0, taxableWithdrawal = 0,
     taxableGains = 0,
     byAccount = foldl (\<lambda>m acc. AList.update (s_id acc) 0 m) [] accountStates,
     remainingNeed = max 0 (fl (targetSpending - otherIncome)),
     rrifRemaining = rrifMinimum,
     depletionAges = deplAges\<rparr>"

definition performTaxOptimizedWithdrawal_double ::
  "AccountState list \<Rightarrow> real \<Rightarrow> real \<Rightarrow> real \<Rightarrow> Profile \<Rightarrow> (string \<times> int option) list \<Rightarrow> int
   \<Rightarrow> AccountState list \<times> WithdrawalState" where
  "performTaxOptimizedWithdrawal_double accountStates targetSpending rrifMinimum otherIncome
      profile deplAges age =
    (let s0 = initialWithdrawalState_double accountStates targetSpending rrifMinimum otherIncome
                deplAges;
         isRrsp = (\<lambda>acc. isPreTax (s_type acc));
         isTaxFree = (\<lambda>acc. getTaxTreatment (s_type acc) = tax_free);
         isTaxable = (\<lambda>acc. getTaxTreatment (s_type acc) = taxable);
         needMet = (\<lambda>s. remainingNeed s \<le> 0);
         (a1, s1) = forAccounts isRrsp (\<lambda>s. rrifRemaining s \<le> 0) (rrifBody_double age)
                      accountStates s0;
         (a2, s2) = forAccounts isRrsp needMet
                      (bracketFillBody_double (spouse profile \<noteq> None) otherIncome age) a1 s1;
         (a3, s3) = forAccounts isTaxFree needMet (taxFreeBody_double age) a2 s2;
         (a4, s4) = forAccounts isTaxable needMet (taxableBody_double age) a3 s3
     in if remainingNeed s4 > 0
        then forAccounts isRrsp needMet (extraRrspBody_double age) a4 s4
        else (a4, s4))"

section \<open>Specification-side definitions and test scenarios\<close>

text \<open>
  The stepped premium as the specification words it: a table of income bands, each with
  its flat amount; the premium is the amount of the highest band whose lower bound the
  income exceeds, and nothing below the first band.
\<close>

definition premiumBands :: "(real \<times> real) list" where
  "premiumBands = [(20000, 300), (36000, 450), (48000, 600), (72000, 750), (200000, 900)]"

definition steppedPremium :: "(real \<times> real) list \<Rightarrow> real \<Rightarrow> real" where
  "steppedPremium bands income = foldl (\<lambda>p (lo, amt). if income > lo then amt else p) 0 bands"

text \<open>Scenario A of the test suite (\<open>testWithdrawalStrategy\<close>).\<close>

definition scenarioA_accounts :: "Account list" where
  "scenarioA_accounts =
    [\<lparr>a_id = ''rrsp'', a_name = ''RRSP'', a_type = rrsp, a_owner = owner_primary,
      a_balance = 500000\<rparr>,
     \<lparr>a_id = ''tfsa'', a_name = ''TFSA'', a_type = tfsa, a_owner = owner_primary,
      a_balance = 100000\<rparr>]"

definition scenarioA_profile :: Profile where
  "scenarioA_profile =
    \<lparr>currentAge = 65, retirementAge = 65, lifeExpectancy = 66, filingStatus = single,
     provinceTaxRate = 0.10, cppOasBenefit = Some 0, cppOasStartAge = Some 65, spouse = None\<rparr>"

definition scenarioA_assumptions :: Assumptions where
  "scenarioA_assumptions =
    \<lparr>inflationRate = 0, safeWithdrawalRate = 0.04, retirementReturnRate = 0\<rparr>"

text \<open>What \<open>calculateAccumulation\<close> returns for zero years to retirement.\<close>

definition scenarioA_accumulation :: AccumulationResult where
  "scenarioA_accumulation =
    \<lparr>finalBalances = [(''rrsp'', 500000), (''tfsa'', 100000)],
     totalAtRetirement = 600000, totalAtRetirementReal = 600000\<rparr>"







text \<open>A run that empties the RRSP in its first year, and a portfolio that starts empty.\<close>

definition drainAccumulation :: AccumulationResult where
  "drainAccumulation =
    \<lparr>finalBalances = [(''rrsp'', 1000), (''tfsa'', 0)],
     totalAtRetirement = 1000, totalAtRetirementReal = 1000\<rparr>"

definition drainAssumptions :: Assumptions where
  "drainAssumptions =
    \<lparr>inflationRate = 0, safeWithdrawalRate = 1, retirementReturnRate = 0\<rparr>"

definition zeroAccumulation :: AccumulationResult where
  "zeroAccumulation =
    \<lparr>finalBalances = [(''rrsp'', 0), (''tfsa'', 0)],
     totalAtRetirement = 0, totalAtRetirementReal = 0\<rparr>"




text \<open>
  A run whose amounts are not all representable: an RRSP of 2000000 and a TFSA of 1000.1
  (the double nearest to it), a withdrawal rate of 0.04, retirement at 65 without CPP/OAS
  income. \<open>roundingFirstYear\<close> is the call of \<open>performTaxOptimizedWithdrawal\<close> in the first
  simulated year of that run: the account states and the depletion map are the initial
  ones, the target is the double product \<open>totalPortfolio * safeWithdrawalRate\<close>, and both
  the RRIF minimum (age 65 is below the start age) and the CPP/OAS income are 0.
\<close>

definition roundingAccounts :: "Account list" where
  "roundingAccounts =
    [\<lparr>a_id = ''rrsp'', a_name = ''RRSP'', a_type = rrsp, a_owner = owner_primary,
      a_balance = 2000000\<rparr>,
     \<lparr>a_id = ''tfsa'', a_name = ''TFSA'', a_type = tfsa, a_owner = owner_primary,
      a_balance = fl 1000.1\<rparr>]"

definition roundingAccumulation :: AccumulationResult where
  "roundingAccumulation =
    \<lparr>finalBalances = [(''rrsp'', 2000000), (''tfsa'', fl 1000.1)],
     totalAtRetirement = fl (2000000 + fl 1000.1),
     totalAtRetirementReal = fl (2000000 + fl 1000.1)\<rparr>"

definition roundingAssumptions :: Assumptions where
  "roundingAssumptions =
    \<lparr>inflationRate = 0, safeWithdrawalRate = fl 0.04, retirementReturnRate = 0\<rparr>"

definition roundingFirstYear :: "AccountState list \<times> WithdrawalState" where
  "roundingFirstYear =
    performTaxOptimizedWithdrawal_double
      (initialAccountStates roundingAccounts roundingAccumulation)
      (fl (totalAtRetirement roundingAccumulation * safeWithdrawalRate roundingAssumptions))
      0 0 scenarioA_profile
      (st_accountDepletionAges
         (initialState roundingAccounts roundingAssumptions roundingAccumulation))
      (retirementAge scenarioA_profile)"

section \<open>Proof-side predicates\<close>

text \<open>
  A taxable account whose cost basis is 0 is empty: the cost basis starts at half the
  balance, shrinks by a non-zero factor while something is left, and is set to 0 only
  when nothing is left.
\<close>

definition trackedBasis :: "AccountState \<Rightarrow> bool" where
  "trackedBasis acc \<longleftrightarrow>
     (getTaxTreatment (s_type acc) = taxable \<and> costBasis acc = 0 \<longrightarrow> balance acc = 0)"

text \<open>The balances held under one account id, added up.\<close>

definition balanceOf :: "string \<Rightarrow> AccountState list \<Rightarrow> real" where
  "balanceOf k accs = sum_list (map balance (filter (\<lambda>a. s_id a = k) accs))"

text \<open>
  What the five loop bodies have in common: each takes some amount \<open>w\<close> out of the account
  and books the same amount on the account's key and on the total; \<open>w\<close> is at most the
  balance, and not negative when the loop has not reached its break condition; the
  depletion map is left alone or goes through \<open>recordDepletion\<close>.
\<close>

definition drains ::
  "int \<Rightarrow> (WithdrawalState \<Rightarrow> bool) \<Rightarrow>
   (AccountState \<Rightarrow> WithdrawalState \<Rightarrow> AccountState \<times> WithdrawalState) \<Rightarrow> bool" where
  "drains age brk body \<longleftrightarrow>
    (\<forall>acc s. \<exists>w acc' s'. body acc s = (acc', s') \<and>
        s_id acc' = s_id acc \<and> balance acc' = balance acc - w \<and>
        (0 \<le> balance acc \<longrightarrow> w \<le> balance acc) \<and>
        (\<not> brk s \<and> 0 \<le> balance acc \<longrightarrow> 0 \<le> w) \<and>
        byAccount s' = addTo (s_id acc) w (byAccount s) \<and> total s' = total s + w \<and>
        (depletionAges s' = depletionAges s \<or>
         depletionAges s' = recordDepletion age acc' (depletionAges s)))"

text \<open>
  The relation between the accounts and the working state before and after any number of
  withdrawal steps: ids and keys stay, the map's sum and the total move together, a
  non-negative balance stays non-negative and does not grow, what is booked on a key plus
  what is held under it is constant, and a depletion age that is set stays.
\<close>

definition stepRel ::
  "AccountState list \<Rightarrow> WithdrawalState \<Rightarrow> AccountState list \<Rightarrow> WithdrawalState \<Rightarrow> bool" where
  "stepRel accs s accs' s' \<longleftrightarrow>
     map s_id accs' = map s_id accs \<and>
     map fst (byAccount s') = map fst (byAccount s) \<and>
     sum_list (map snd (byAccount s')) - total s'
       = sum_list (map snd (byAccount s)) - total s \<and>
     list_all2 (\<lambda>a a'. 0 \<le> balance a \<longrightarrow> 0 \<le> balance a' \<and> balance a' \<le> balance a)
       accs accs' \<and>
     (\<forall>k. lookup0 (byAccount s') k + balanceOf k accs'
            = lookup0 (byAccount s) k + balanceOf k accs) \<and>
     (\<forall>k a. map_of (depletionAges s) k = Some (Some a)
            \<longrightarrow> map_of (depletionAges s') k = Some (Some a))"


section \<open>Tax engine: verified properties\<close>

text \<open>
  C6. For ordinary income \<open>y\<close> between 0 and the upper bound of the first federal bracket
  and no capital gains, the federal tax is \<open>max(0, y * 0.15 - BASIC_PERSONAL_AMOUNT * 0.15)\<close>;
  at \<open>y = 50000\<close> it is \<open>50000 * 0.15 - BASIC_PERSONAL_AMOUNT * 0.15\<close>.
\<close>

theorem federal_tax_first_bracket:
  assumes "0 \<le> y" and "y \<le> the (bmax (hd TAX_BRACKETS_FEDERAL))"
  shows "calculateTotalFederalTax y 0 fs = max 0 (y * 0.15 - BASIC_PERSONAL_AMOUNT * 0.15)
       \<and> calculateTotalFederalTax 50000 0 fs = 50000 * 0.15 - BASIC_PERSONAL_AMOUNT * 0.15"
  using assms
  by (simp add: calculateTotalFederalTax_def calculateRawFederalTax_def calculateBracketTax_def
      TAX_BRACKETS_FEDERAL_def CAPITAL_GAINS_INCLUSION_RATE_BASE_def Let_def
      BASIC_PERSONAL_AMOUNT_def)

theorem federal_tax_first_bracket_witness:
  "(0::real) \<le> 50000 \<and> 50000 \<le> the (bmax (hd TAX_BRACKETS_FEDERAL))
   \<and> calculateTotalFederalTax 50000 0 single = 5080.65"
proof -
  have h1: "(0::real) \<le> 50000" by simp
  have h2: "50000 \<le> the (bmax (hd TAX_BRACKETS_FEDERAL))"
    by (simp add: TAX_BRACKETS_FEDERAL_def)
  show ?thesis
    using h2 federal_tax_first_bracket [OF h1 h2, of single]
    by (simp add: BASIC_PERSONAL_AMOUNT_def)
qed

text \<open>
  C7. When the total taxable income \<open>T\<close> (ordinary income plus half the capital gain) is
  positive, the provincial tax is the basic bracket tax after the credit, \<open>B\<close>, floored
  at 0, plus 20% of what \<open>B\<close> exceeds 5710 by, plus 36% of what the same \<open>B\<close> exceeds
  7307 by, plus the stepped premium of \<open>T\<close>; the premium table has five bands whose
  bounds and amounts increase, and the premium never exceeds 900.
\<close>

theorem provincial_tax_layers:
  assumes "0 < y + g * 0.5"
  shows "calculateProvincialTax y g r =
          (let T = y + g * 0.5;
               B = max 0 (calculateBracketTax T TAX_BRACKETS_PROVINCIAL
                            - 11865 * rate (hd TAX_BRACKETS_PROVINCIAL))
           in B + ONTARIO_SURTAX_1_RATE * max 0 (B - ONTARIO_SURTAX_1_THRESHOLD)
                + ONTARIO_SURTAX_2_RATE * max 0 (B - ONTARIO_SURTAX_2_THRESHOLD)
                + steppedPremium premiumBands T)
       \<and> length premiumBands = 5
       \<and> sorted_wrt (<) (map fst premiumBands)
       \<and> sorted_wrt (<) (map snd premiumBands)
       \<and> steppedPremium premiumBands (y + g * 0.5) \<le> 900
       \<and> ONTARIO_SURTAX_1_THRESHOLD < ONTARIO_SURTAX_2_THRESHOLD"
  using assms
  by (simp add: calculateProvincialTax_def Let_def CAPITAL_GAINS_INCLUSION_RATE_BASE_def
      ONTARIO_SURTAX_1_THRESHOLD_def ONTARIO_SURTAX_2_THRESHOLD_def ONTARIO_SURTAX_1_RATE_def
      ONTARIO_SURTAX_2_RATE_def steppedPremium_def premiumBands_def TAX_BRACKETS_PROVINCIAL_def
      max_def)

theorem provincial_tax_layers_witness:
  "(0::real) < 150000 + 0 * 0.5
   \<and> calculateProvincialTax 150000 0 0.10 =
       (let T = 150000 + 0 * 0.5;
            B = max 0 (calculateBracketTax T TAX_BRACKETS_PROVINCIAL
                         - 11865 * rate (hd TAX_BRACKETS_PROVINCIAL))
        in B + ONTARIO_SURTAX_1_RATE * max 0 (B - ONTARIO_SURTAX_1_THRESHOLD)
             + ONTARIO_SURTAX_2_RATE * max 0 (B - ONTARIO_SURTAX_2_THRESHOLD)
             + steppedPremium premiumBands T)"
proof -
  have h: "(0::real) < 150000 + 0 * 0.5" by simp
  show ?thesis using h provincial_tax_layers [OF h, of "0.10"] by simp
qed

text \<open>
  C10, as the code has it. The provincial tax does not depend on the flat-rate argument:
  any two rates give the same tax for the same ordinary income and capital gain.
\<close>

theorem provincial_tax_ignores_flat_rate:
  "calculateProvincialTax y g r1 = calculateProvincialTax y g r2"
  by (simp add: calculateProvincialTax_def)

text \<open>
  C10, as claimed, fails: no ordinary income, capital gain and pair of distinct rates
  give two different provincial taxes.
\<close>

theorem provincial_tax_rate_sensitivity_counterexample:
  "\<not> (\<exists>y g r1 r2. r1 \<noteq> r2 \<and> calculateProvincialTax y g r1 \<noteq> calculateProvincialTax y g r2)"
  by (simp add: calculateProvincialTax_def)

section \<open>Minimum distribution: verified properties\<close>

lemma getRRIFFactor_step:
  assumes "72 \<le> a"
  shows "getRRIFFactor (of_int a) \<le> getRRIFFactor (of_int (a + 1))"
proof -
  consider "96 \<le> a" | "a \<in> {72..95}" using assms by force
  then show ?thesis
  proof cases
    case 1
    then have "95 < real_of_int a" and "95 < real_of_int (a + 1)" by simp_all
    then show ?thesis
      by (simp add: getRRIFFactor_def RRIF_START_AGE_def RRIF_TABLE_def)
  next
    case 2
    then have "a = 72 \<or> a = 73 \<or> a = 74 \<or> a = 75 \<or> a = 76 \<or> a = 77 \<or> a = 78 \<or> a = 79
        \<or> a = 80 \<or> a = 81 \<or> a = 82 \<or> a = 83 \<or> a = 84 \<or> a = 85 \<or> a = 86 \<or> a = 87
        \<or> a = 88 \<or> a = 89 \<or> a = 90 \<or> a = 91 \<or> a = 92 \<or> a = 93 \<or> a = 94 \<or> a = 95"
      by (simp only: atLeastAtMost_iff) presburger
    then show ?thesis
      by (elim disjE) (simp_all add: getRRIFFactor_def RRIF_START_AGE_def RRIF_TABLE_def)
  qed
qed

lemma getRRIFFactor_mono_nat:
  assumes "72 \<le> a"
  shows "getRRIFFactor (of_int a) \<le> getRRIFFactor (of_int (a + int k))"
proof (induction k)
  case 0
  show ?case by simp
next
  case (Suc k)
  have "getRRIFFactor (of_int (a + int k)) \<le> getRRIFFactor (of_int (a + int k + 1))"
    using assms by (intro getRRIFFactor_step) simp
  moreover have "a + int (Suc k) = a + int k + 1" by simp
  ultimately show ?case using Suc by (metis order_trans)
qed

lemma getRRIFFactor_mono:
  assumes "72 \<le> a" and "a \<le> a'"
  shows "getRRIFFactor (of_int a) \<le> getRRIFFactor (of_int a')"
proof -
  have "a' = a + int (nat (a' - a))" using assms by simp
  then show ?thesis using getRRIFFactor_mono_nat [OF assms(1), of "nat (a' - a)"] by simp
qed

lemma getRRIFFactor_beyond_table:
  assumes "95 < a"
  shows "getRRIFFactor a = 0.20"
  using assms by (simp add: getRRIFFactor_def RRIF_START_AGE_def RRIF_TABLE_def)

text \<open>
  C5, as the code has it. For a balance \<open>b \<ge> 0\<close>: the mandatory minimum is 0 at every
  age below the start age (the table's entries for 70 and 71 included); over whole-number
  ages from the start age on it does not decrease with age; beyond the table's last age it
  is \<open>b\<close> times the last factor of the table, which is the largest factor of the table.
\<close>

theorem rrif_minimum_by_whole_age:
  assumes "0 \<le> b"
  shows "(age < RRIF_START_AGE \<longrightarrow> calculateRRIFMinimum age b = 0)
       \<and> (RRIF_START_AGE \<le> of_int i \<and> i \<le> j \<longrightarrow>
            calculateRRIFMinimum (of_int i) b \<le> calculateRRIFMinimum (of_int j) b)
       \<and> (e_age (last RRIF_TABLE) < age \<longrightarrow>
            calculateRRIFMinimum age b = b * factor (last RRIF_TABLE))
       \<and> list_all (\<lambda>e. factor e \<le> factor (last RRIF_TABLE)) RRIF_TABLE
       \<and> list_ex (\<lambda>e. e_age e < RRIF_START_AGE) RRIF_TABLE"
proof (intro conjI impI)
  show "calculateRRIFMinimum age b = 0" if "age < RRIF_START_AGE"
    using that by (simp add: calculateRRIFMinimum_def)
  show "calculateRRIFMinimum (of_int i) b \<le> calculateRRIFMinimum (of_int j) b"
    if "RRIF_START_AGE \<le> of_int i \<and> i \<le> j"
  proof -
    have i: "72 \<le> i" and j: "72 \<le> j" using that by (simp_all add: RRIF_START_AGE_def)
    have "getRRIFFactor (of_int i) \<le> getRRIFFactor (of_int j)"
      using i that by (intro getRRIFFactor_mono) simp_all
    then have "b * getRRIFFactor (of_int i) \<le> b * getRRIFFactor (of_int j)"
      using assms by (rule mult_left_mono)
    then show ?thesis using i j by (simp add: calculateRRIFMinimum_def RRIF_START_AGE_def)
  qed
  show "calculateRRIFMinimum age b = b * factor (last RRIF_TABLE)"
    if "e_age (last RRIF_TABLE) < age"
  proof -
    have "95 < age" using that by (simp add: RRIF_TABLE_def)
    then show ?thesis
      by (simp add: calculateRRIFMinimum_def getRRIFFactor_beyond_table RRIF_START_AGE_def
          RRIF_TABLE_def)
  qed
  show "list_all (\<lambda>e. factor e \<le> factor (last RRIF_TABLE)) RRIF_TABLE"
    by (simp add: RRIF_TABLE_def)
  show "list_ex (\<lambda>e. e_age e < RRIF_START_AGE) RRIF_TABLE"
    by (simp add: RRIF_TABLE_def RRIF_START_AGE_def)
qed

theorem rrif_minimum_by_whole_age_witness:
  "(0::real) \<le> 100000
   \<and> 71 < RRIF_START_AGE \<and> calculateRRIFMinimum 71 100000 = 0
   \<and> RRIF_START_AGE \<le> of_int 80 \<and> (80::int) \<le> 90
   \<and> calculateRRIFMinimum (of_int 80) 100000 \<le> calculateRRIFMinimum (of_int 90) 100000
   \<and> e_age (last RRIF_TABLE) < 96 \<and> calculateRRIFMinimum 96 100000 = 20000"
proof -
  have h: "(0::real) \<le> 100000" by simp
  have a: "71 < RRIF_START_AGE" "RRIF_START_AGE \<le> of_int 80 \<and> (80::int) \<le> 90"
          "e_age (last RRIF_TABLE) < 96"
    by (simp_all add: RRIF_START_AGE_def RRIF_TABLE_def)
  have f: "factor (last RRIF_TABLE) = 0.2" by (simp add: RRIF_TABLE_def)
  have c1: "calculateRRIFMinimum 71 100000 = 0"
    using rrif_minimum_by_whole_age [OF h, of 71] a(1) by blast
  have c2: "calculateRRIFMinimum (of_int 80) 100000 \<le> calculateRRIFMinimum (of_int 90) 100000"
    using rrif_minimum_by_whole_age [OF h, of _ 80 90] a(2) by blast
  have c3: "calculateRRIFMinimum 96 100000 = 100000 * factor (last RRIF_TABLE)"
    using rrif_minimum_by_whole_age [OF h, of 96] a(3) by blast
  show ?thesis using h a c1 c2 c3 f by simp
qed

text \<open>
  C5, as claimed, fails: the age 72.5 is at or above the start age and above 72, and the
  mandatory minimum of a balance of 100000 is 0 there, below the 5400 at age 72.
\<close>

theorem fractional_age_counterexample:
  "(0::real) \<le> 100000 \<and> RRIF_START_AGE \<le> 72 \<and> (72::real) \<le> 72.5
   \<and> calculateRRIFMinimum 72 100000 = 5400
   \<and> calculateRRIFMinimum 72.5 100000 = 0
   \<and> calculateRRIFMinimum 72.5 100000 < calculateRRIFMinimum 72 100000"
  by (simp add: calculateRRIFMinimum_def getRRIFFactor_def RRIF_START_AGE_def RRIF_TABLE_def)

section \<open>Withdrawal steps: verified properties\<close>

subsection \<open>Association lists\<close>

lemma addTo_keys: "map fst (addTo k w m) = map fst m"
proof (cases "map_of m k")
  case None
  then show ?thesis by (simp add: addTo_def)
next
  case (Some v)
  then have "k \<in> fst ` set m" by (metis map_of_eq_None_iff option.distinct(1))
  with Some show ?thesis by (simp add: addTo_def update_keys)
qed

lemma update_sum:
  fixes m :: "(string \<times> real) list"
  shows "map_of m k = Some v \<Longrightarrow> sum_list (map snd (AList.update k u m)) = sum_list (map snd m) - v + u"
  by (induction m) (auto split: if_splits simp: algebra_simps)

lemma addTo_sum:
  "k \<in> set (map fst m) \<Longrightarrow> sum_list (map snd (addTo k w m)) = sum_list (map snd m) + w"
proof -
  assume "k \<in> set (map fst m)"
  then obtain v where v: "map_of m k = Some v"
    by (metis map_of_eq_None_iff not_None_eq set_map)
  then show ?thesis by (simp add: addTo_def update_sum)
qed

lemma lookup0_addTo:
  "k \<in> set (map fst m) \<Longrightarrow>
     lookup0 (addTo k w m) k' = (if k' = k then lookup0 m k + w else lookup0 m k')"
proof -
  assume "k \<in> set (map fst m)"
  then obtain v where v: "map_of m k = Some v"
    by (metis map_of_eq_None_iff not_None_eq set_map)
  then show ?thesis by (simp add: addTo_def lookup0_def update_conv')
qed

lemma recordDepletion_keeps:
  "map_of d k = Some (Some a) \<Longrightarrow> map_of (recordDepletion age acc d) k = Some (Some a)"
  by (auto simp: recordDepletion_def update_conv')

lemma addTo_zero: "addTo k 0 m = m"
  by (simp add: addTo_def update_triv split: option.splits)

lemma foldl_update_keys:
  "fst ` set (foldl (\<lambda>m a. AList.update (f a) (g a) m) m0 xs) = fst ` set m0 \<union> f ` set xs"
proof (induction xs arbitrary: m0)
  case Nil
  show ?case by simp
next
  case (Cons x xs)
  have "fst ` set (foldl (\<lambda>m a. AList.update (f a) (g a) m) (AList.update (f x) (g x) m0) xs)
          = fst ` set (AList.update (f x) (g x) m0) \<union> f ` set xs"
    by (rule Cons.IH)
  also have "\<dots> = ({f x} \<union> fst ` set m0) \<union> f ` set xs"
    by (simp only: dom_update)
  finally show ?case by auto
qed

lemma foldl_update_distinct_keys:
  "distinct (map fst m0) \<Longrightarrow> distinct (map fst (foldl (\<lambda>m a. AList.update (f a) (g a) m) m0 xs))"
  by (induction xs arbitrary: m0) (simp_all add: distinct_update)

lemma update_values: "set (map snd (AList.update k v m)) \<subseteq> insert v (set (map snd m))"
  by (induction m) auto

lemma foldl_update_values:
  "set (map snd (foldl (\<lambda>m a. AList.update (f a) (g a) m) m0 xs)) \<subseteq> set (map snd m0) \<union> g ` set xs"
proof (induction xs arbitrary: m0)
  case Nil
  show ?case by simp
next
  case (Cons x xs)
  have "set (map snd (foldl (\<lambda>m a. AList.update (f a) (g a) m) (AList.update (f x) (g x) m0) xs))
          \<subseteq> set (map snd (AList.update (f x) (g x) m0)) \<union> g ` set xs"
    by (rule Cons.IH)
  also have "\<dots> \<subseteq> insert (g x) (set (map snd m0)) \<union> g ` set xs"
    using update_values[of "f x" "g x" m0] by blast
  finally show ?case by auto
qed

lemma all_zero_sum:
  fixes m :: "(string \<times> real) list"
  assumes "set (map snd m) \<subseteq> {0}"
  shows "sum_list (map snd m) = 0" and "lookup0 m k = 0"
proof -
  show "sum_list (map snd m) = 0"
    using assms by (induction m) auto
  show "lookup0 m k = 0"
  proof (cases "map_of m k")
    case None
    then show ?thesis by (simp add: lookup0_def)
  next
    case (Some v)
    then have "v \<in> set (map snd m)" by (metis map_of_SomeD set_zip_rightD zip_map_fst_snd)
    with assms Some show ?thesis by (auto simp: lookup0_def)
  qed
qed

subsection \<open>The loop bodies drain\<close>

lemma drains_rrif: "drains age (\<lambda>s. rrifRemaining s \<le> 0) (rrifBody age)"
  unfolding drains_def
proof (intro allI)
  fix acc :: AccountState and s :: WithdrawalState
  define w where "w = min (rrifRemaining s) (balance acc)"
  have b: "rrifBody age acc s =
      (acc\<lparr>balance := balance acc - w\<rparr>,
       s\<lparr>byAccount := addTo (s_id acc) w (byAccount s),
         rrspWithdrawal := rrspWithdrawal s + w, total := total s + w,
         rrifRemaining := rrifRemaining s - w,
         remainingNeed := max 0 (remainingNeed s - w),
         depletionAges := recordDepletion age (acc\<lparr>balance := balance acc - w\<rparr>) (depletionAges s)\<rparr>)"
    by (simp add: rrifBody_def Let_def w_def)
  have "w \<le> balance acc" by (simp add: w_def)
  moreover have "\<not> rrifRemaining s \<le> 0 \<and> 0 \<le> balance acc \<longrightarrow> 0 \<le> w" by (simp add: w_def)
  ultimately show "\<exists>w acc' s'. rrifBody age acc s = (acc', s') \<and>
        s_id acc' = s_id acc \<and> balance acc' = balance acc - w \<and>
        (0 \<le> balance acc \<longrightarrow> w \<le> balance acc) \<and>
        (\<not> rrifRemaining s \<le> 0 \<and> 0 \<le> balance acc \<longrightarrow> 0 \<le> w) \<and>
        byAccount s' = addTo (s_id acc) w (byAccount s) \<and> total s' = total s + w \<and>
        (depletionAges s' = depletionAges s \<or>
         depletionAges s' = recordDepletion age acc' (depletionAges s))"
    by (intro exI[of _ w]) (simp add: b)
qed


lemma drains_bracketFill: "drains age (\<lambda>s. remainingNeed s \<le> 0) (bracketFillBody sp oi age)"
  unfolding drains_def
proof (intro allI)
  fix acc :: AccountState and s :: WithdrawalState
  define w where "w = min (max 0 (the (bmax (hd TAX_BRACKETS_FEDERAL)) * (if sp then 2 else 1)
                          - (rrspWithdrawal s + oi))) (min (remainingNeed s) (balance acc))"
  have b: "bracketFillBody sp oi age acc s =
      (if w > 0 then
       (acc\<lparr>balance := balance acc - w\<rparr>,
        s\<lparr>byAccount := addTo (s_id acc) w (byAccount s),
          rrspWithdrawal := rrspWithdrawal s + w, total := total s + w,
          remainingNeed := remainingNeed s - w,
          depletionAges := recordDepletion age (acc\<lparr>balance := balance acc - w\<rparr>) (depletionAges s)\<rparr>)
       else (acc, s))"
    by (simp add: bracketFillBody_def Let_def w_def)
  have le: "w \<le> balance acc" by (simp add: w_def)
  show "\<exists>w acc' s'. bracketFillBody sp oi age acc s = (acc', s') \<and>
        s_id acc' = s_id acc \<and> balance acc' = balance acc - w \<and>
        (0 \<le> balance acc \<longrightarrow> w \<le> balance acc) \<and>
        (\<not> remainingNeed s \<le> 0 \<and> 0 \<le> balance acc \<longrightarrow> 0 \<le> w) \<and>
        byAccount s' = addTo (s_id acc) w (byAccount s) \<and> total s' = total s + w \<and>
        (depletionAges s' = depletionAges s \<or>
         depletionAges s' = recordDepletion age acc' (depletionAges s))"
  proof (cases "w > 0")
    case True
    then show ?thesis using le by (intro exI[of _ w]) (simp add: b)
  next
    case False
    then show ?thesis by (intro exI[of _ 0]) (simp add: b addTo_zero)
  qed
qed

lemma drains_taxFree: "drains age (\<lambda>s. remainingNeed s \<le> 0) (taxFreeBody age)"
  unfolding drains_def
proof (intro allI)
  fix acc :: AccountState and s :: WithdrawalState
  have "min (remainingNeed s) (balance acc) \<le> balance acc" by simp
  moreover have "\<not> remainingNeed s \<le> 0 \<and> 0 \<le> balance acc \<longrightarrow> 0 \<le> min (remainingNeed s) (balance acc)"
    by simp
  ultimately show "\<exists>w acc' s'. taxFreeBody age acc s = (acc', s') \<and>
        s_id acc' = s_id acc \<and> balance acc' = balance acc - w \<and>
        (0 \<le> balance acc \<longrightarrow> w \<le> balance acc) \<and>
        (\<not> remainingNeed s \<le> 0 \<and> 0 \<le> balance acc \<longrightarrow> 0 \<le> w) \<and>
        byAccount s' = addTo (s_id acc) w (byAccount s) \<and> total s' = total s + w \<and>
        (depletionAges s' = depletionAges s \<or>
         depletionAges s' = recordDepletion age acc' (depletionAges s))"
    by (intro exI[of _ "min (remainingNeed s) (balance acc)"]) (simp add: taxFreeBody_def Let_def)
qed

lemma drains_taxable: "drains age (\<lambda>s. remainingNeed s \<le> 0) (taxableBody age)"
  unfolding drains_def
proof (intro allI)
  fix acc :: AccountState and s :: WithdrawalState
  have "min (remainingNeed s) (balance acc) \<le> balance acc" by simp
  moreover have "\<not> remainingNeed s \<le> 0 \<and> 0 \<le> balance acc \<longrightarrow> 0 \<le> min (remainingNeed s) (balance acc)"
    by simp
  ultimately show "\<exists>w acc' s'. taxableBody age acc s = (acc', s') \<and>
        s_id acc' = s_id acc \<and> balance acc' = balance acc - w \<and>
        (0 \<le> balance acc \<longrightarrow> w \<le> balance acc) \<and>
        (\<not> remainingNeed s \<le> 0 \<and> 0 \<le> balance acc \<longrightarrow> 0 \<le> w) \<and>
        byAccount s' = addTo (s_id acc) w (byAccount s) \<and> total s' = total s + w \<and>
        (depletionAges s' = depletionAges s \<or>
         depletionAges s' = recordDepletion age acc' (depletionAges s))"
    by (intro exI[of _ "min (remainingNeed s) (balance acc)"]) (simp add: taxableBody_def Let_def)
qed

lemma drains_extraRrsp: "drains age (\<lambda>s. remainingNeed s \<le> 0) (extraRrspBody age)"
  unfolding drains_def
proof (intro allI)
  fix acc :: AccountState and s :: WithdrawalState
  have "min (remainingNeed s) (balance acc) \<le> balance acc" by simp
  moreover have "\<not> remainingNeed s \<le> 0 \<and> 0 \<le> balance acc \<longrightarrow> 0 \<le> min (remainingNeed s) (balance acc)"
    by simp
  ultimately show "\<exists>w acc' s'. extraRrspBody age acc s = (acc', s') \<and>
        s_id acc' = s_id acc \<and> balance acc' = balance acc - w \<and>
        (0 \<le> balance acc \<longrightarrow> w \<le> balance acc) \<and>
        (\<not> remainingNeed s \<le> 0 \<and> 0 \<le> balance acc \<longrightarrow> 0 \<le> w) \<and>
        byAccount s' = addTo (s_id acc) w (byAccount s) \<and> total s' = total s + w \<and>
        (depletionAges s' = depletionAges s \<or>
         depletionAges s' = recordDepletion age acc' (depletionAges s))"
    by (intro exI[of _ "min (remainingNeed s) (balance acc)"]) (simp add: extraRrspBody_def Let_def)
qed

subsection \<open>The relation holds across every loop and the whole withdrawal\<close>

lemma stepRel_refl: "stepRel accs s accs s"
  by (simp add: stepRel_def list_all2_same)

lemma stepRel_trans:
  assumes "stepRel a1 s1 a2 s2" and "stepRel a2 s2 a3 s3"
  shows "stepRel a1 s1 a3 s3"
proof -
  let ?P = "\<lambda>a a'. 0 \<le> balance a \<longrightarrow> 0 \<le> balance a' \<and> balance a' \<le> balance a"
  have l12: "list_all2 ?P a1 a2" and l23: "list_all2 ?P a2 a3"
    using assms by (simp_all add: stepRel_def)
  have "list_all2 ?P a1 a3"
  proof (rule list_all2_trans[OF _ l12 l23])
    fix a b c :: AccountState
    assume "?P a b" and "?P b c"
    then show "?P a c" by auto
  qed
  then show ?thesis using assms unfolding stepRel_def by simp
qed

lemma stepRel_skip:
  assumes "stepRel accs s accs' s'"
  shows "stepRel (acc # accs) s (acc # accs') s'"
  using assms by (simp add: stepRel_def balanceOf_def)

lemma stepRel_head:
  assumes id: "s_id acc' = s_id acc"
    and bal: "balance acc' = balance acc - w"
    and w: "0 \<le> balance acc \<longrightarrow> 0 \<le> w \<and> w \<le> balance acc"
    and by1: "byAccount s1 = addTo (s_id acc) w (byAccount s)"
    and tot: "total s1 = total s + w"
    and dep: "depletionAges s1 = depletionAges s \<or>
              depletionAges s1 = recordDepletion age acc' (depletionAges s)"
    and key: "s_id acc \<in> set (map fst (byAccount s))"
    and rest: "stepRel accs s1 accs' s2"
  shows "stepRel (acc # accs) s (acc' # accs') s2"
proof -
  have ids: "map s_id (acc' # accs') = map s_id (acc # accs)"
    using rest id by (simp add: stepRel_def)
  have keys: "map fst (byAccount s2) = map fst (byAccount s)"
    using rest by1 by (simp add: stepRel_def addTo_keys)
  have sums: "sum_list (map snd (byAccount s2)) - total s2
                = sum_list (map snd (byAccount s)) - total s"
    using rest by1 tot key by (simp add: stepRel_def addTo_sum)
  have pw: "list_all2 (\<lambda>a a'. 0 \<le> balance a \<longrightarrow> 0 \<le> balance a' \<and> balance a' \<le> balance a)
              (acc # accs) (acc' # accs')"
    using rest bal w by (simp add: stepRel_def)
  have per: "lookup0 (byAccount s2) k + balanceOf k (acc' # accs')
               = lookup0 (byAccount s) k + balanceOf k (acc # accs)" for k
  proof -
    have "lookup0 (byAccount s2) k + balanceOf k accs' = lookup0 (byAccount s1) k + balanceOf k accs"
      using rest by (simp add: stepRel_def)
    moreover have "lookup0 (byAccount s1) k = (if k = s_id acc then lookup0 (byAccount s) k + w
                                                else lookup0 (byAccount s) k)"
      using key by1 by (simp add: lookup0_addTo)
    ultimately show ?thesis using id bal by (cases "k = s_id acc") (auto simp: balanceOf_def)
  qed
  have deps: "map_of (depletionAges s2) k = Some (Some a)"
    if "map_of (depletionAges s) k = Some (Some a)" for k a
  proof -
    have "map_of (depletionAges s1) k = Some (Some a)"
      using dep that by (auto simp: recordDepletion_keeps)
    then show ?thesis using rest by (simp add: stepRel_def)
  qed
  show ?thesis
    unfolding stepRel_def using ids keys sums pw per deps by blast
qed

lemma forAccounts_stepRel:
  assumes d: "drains age brk body"
  shows "set (map s_id accs) \<subseteq> set (map fst (byAccount s)) \<Longrightarrow>
         stepRel accs s (fst (forAccounts sel brk body accs s))
                        (snd (forAccounts sel brk body accs s))"
proof (induction accs arbitrary: s)
  case Nil
  show ?case by (simp add: stepRel_refl)
next
  case (Cons acc accs)
  have sub: "set (map s_id accs) \<subseteq> set (map fst (byAccount s))"
    and key: "s_id acc \<in> set (map fst (byAccount s))"
    using Cons.prems by simp_all
  show ?case
  proof (cases "sel acc")
    case False
    then show ?thesis
      using stepRel_skip[OF Cons.IH[OF sub]] by (simp add: case_prod_beta)
  next
    case True
    show ?thesis
    proof (cases "brk s")
      case True
      with \<open>sel acc\<close> show ?thesis by (simp add: stepRel_refl)
    next
      case False
      from d obtain w acc' s1 where b: "body acc s = (acc', s1)"
        and id: "s_id acc' = s_id acc"
        and bal: "balance acc' = balance acc - w"
        and w1: "0 \<le> balance acc \<longrightarrow> w \<le> balance acc"
        and w2: "\<not> brk s \<and> 0 \<le> balance acc \<longrightarrow> 0 \<le> w"
        and by1: "byAccount s1 = addTo (s_id acc) w (byAccount s)"
        and tot: "total s1 = total s + w"
        and dep: "depletionAges s1 = depletionAges s \<or>
                  depletionAges s1 = recordDepletion age acc' (depletionAges s)"
        unfolding drains_def by blast
      have sub1: "set (map s_id accs) \<subseteq> set (map fst (byAccount s1))"
        using sub by1 by (simp add: addTo_keys)
      have w: "0 \<le> balance acc \<longrightarrow> 0 \<le> w \<and> w \<le> balance acc"
        using w1 w2 False by simp
      have "stepRel (acc # accs) s (acc' # fst (forAccounts sel brk body accs s1))
              (snd (forAccounts sel brk body accs s1))"
        by (rule stepRel_head[OF id bal w by1 tot dep key Cons.IH[OF sub1]])
      then show ?thesis
        using \<open>sel acc\<close> False b by (simp add: case_prod_beta)
    qed
  qed
qed

lemma initial_byAccount:
  "fst ` set (byAccount (initialWithdrawalState accs T R oi d)) = s_id ` set accs"
  "sum_list (map snd (byAccount (initialWithdrawalState accs T R oi d))) = 0"
  "lookup0 (byAccount (initialWithdrawalState accs T R oi d)) k = 0"
  "distinct (map fst (byAccount (initialWithdrawalState accs T R oi d)))"
  "total (initialWithdrawalState accs T R oi d) = 0"
  "depletionAges (initialWithdrawalState accs T R oi d) = d"
proof -
  let ?m = "foldl (\<lambda>m acc. AList.update (s_id acc) (0::real) m) [] accs"
  have z: "set (map snd ?m) \<subseteq> {0}"
    using foldl_update_values[of s_id "\<lambda>_. 0::real" "[]" accs] by auto
  show "fst ` set (byAccount (initialWithdrawalState accs T R oi d)) = s_id ` set accs"
    by (simp add: initialWithdrawalState_def foldl_update_keys)
  show "sum_list (map snd (byAccount (initialWithdrawalState accs T R oi d))) = 0"
    using all_zero_sum(1)[OF z] by (simp add: initialWithdrawalState_def)
  show "lookup0 (byAccount (initialWithdrawalState accs T R oi d)) k = 0"
    using all_zero_sum(2)[OF z] by (simp add: initialWithdrawalState_def)
  show "distinct (map fst (byAccount (initialWithdrawalState accs T R oi d)))"
    by (simp add: initialWithdrawalState_def foldl_update_distinct_keys)
  show "total (initialWithdrawalState accs T R oi d) = 0"
    by (simp add: initialWithdrawalState_def)
  show "depletionAges (initialWithdrawalState accs T R oi d) = d"
    by (simp add: initialWithdrawalState_def)
qed

lemma forAccounts_chain:
  assumes r: "stepRel a0 s0 a s"
    and k: "set (map s_id a0) \<subseteq> set (map fst (byAccount s0))"
    and d: "drains age brk body"
  shows "stepRel a0 s0 (fst (forAccounts sel brk body a s)) (snd (forAccounts sel brk body a s))"
proof -
  have "set (map s_id a) \<subseteq> set (map fst (byAccount s))"
    using r k by (simp add: stepRel_def)
  from forAccounts_stepRel[OF d this] r show ?thesis by (rule stepRel_trans[rotated])
qed

lemma perform_stepRel:
  "stepRel accs (initialWithdrawalState accs T R oi d)
     (fst (performTaxOptimizedWithdrawal accs T R oi P d age))
     (snd (performTaxOptimizedWithdrawal accs T R oi P d age))"
proof -
  define s0 where "s0 = initialWithdrawalState accs T R oi d"
  define isRrsp where "isRrsp = (\<lambda>acc::AccountState. isPreTax (s_type acc))"
  define needMet where "needMet = (\<lambda>s::WithdrawalState. remainingNeed s \<le> 0)"
  define p1 where "p1 = forAccounts isRrsp (\<lambda>s. rrifRemaining s \<le> 0) (rrifBody age) accs s0"
  define p2 where "p2 = forAccounts isRrsp needMet
      (bracketFillBody (spouse P \<noteq> None) oi age) (fst p1) (snd p1)"
  define p3 where "p3 = forAccounts (\<lambda>acc. getTaxTreatment (s_type acc) = tax_free) needMet
      (taxFreeBody age) (fst p2) (snd p2)"
  define p4 where "p4 = forAccounts (\<lambda>acc. getTaxTreatment (s_type acc) = taxable) needMet
      (taxableBody age) (fst p3) (snd p3)"
  define p5 where "p5 = forAccounts isRrsp needMet (extraRrspBody age) (fst p4) (snd p4)"
  have k: "set (map s_id accs) \<subseteq> set (map fst (byAccount s0))"
    using initial_byAccount(1)[of accs T R oi d] by (simp add: s0_def)
  have r1: "stepRel accs s0 (fst p1) (snd p1)"
    unfolding p1_def by (rule forAccounts_chain[OF stepRel_refl k drains_rrif])
  have r2: "stepRel accs s0 (fst p2) (snd p2)"
    unfolding p2_def needMet_def by (rule forAccounts_chain[OF r1 k drains_bracketFill])
  have r3: "stepRel accs s0 (fst p3) (snd p3)"
    unfolding p3_def needMet_def by (rule forAccounts_chain[OF r2 k drains_taxFree])
  have r4: "stepRel accs s0 (fst p4) (snd p4)"
    unfolding p4_def needMet_def by (rule forAccounts_chain[OF r3 k drains_taxable])
  have r5: "stepRel accs s0 (fst p5) (snd p5)"
    unfolding p5_def needMet_def by (rule forAccounts_chain[OF r4 k drains_extraRrsp])
  have "performTaxOptimizedWithdrawal accs T R oi P d age
          = (if remainingNeed (snd p4) > 0 then p5 else p4)"
    by (simp add: performTaxOptimizedWithdrawal_def Let_def case_prod_beta p1_def p2_def p3_def
        p4_def p5_def s0_def isRrsp_def needMet_def)
  then show ?thesis using r4 r5 by (simp add: s0_def)
qed

lemma perform_conservation:
  "sum_list (map snd (byAccount (snd (performTaxOptimizedWithdrawal accs T R oi P d age))))
     = total (snd (performTaxOptimizedWithdrawal accs T R oi P d age))"
  using perform_stepRel[of accs T R oi d P age]
  by (simp add: stepRel_def initial_byAccount)

lemma perform_depletion:
  "map_of d k = Some (Some a) \<Longrightarrow>
   map_of (depletionAges (snd (performTaxOptimizedWithdrawal accs T R oi P d age))) k = Some (Some a)"
  using perform_stepRel[of accs T R oi d P age]
  by (simp add: stepRel_def initial_byAccount)



section \<open>The yearly loop: verified properties\<close>

lemma yearStep_ys_length:
  "length (st_yearlyWithdrawals (yearStep profile assumptions currentYear i st))
     = Suc (length (st_yearlyWithdrawals st))"
  by (simp add: yearStep_def Let_def split: prod.splits)

lemma fold_yearStep_length:
  "length (st_yearlyWithdrawals (fold (yearStep profile assumptions currentYear) [0..<n] st))
     = length (st_yearlyWithdrawals st) + n"
  by (induction n) (simp_all add: yearStep_ys_length)

text \<open>
  C8, as the code has it. The result has \<open>lifeExpectancy - retirementAge + 1\<close> yearly
  records (none when that number is not positive): the sequence is empty exactly when the
  life expectancy is below the retirement age, and has one record when the two are equal.
\<close>

theorem horizon_length:
  "length (yearlyWithdrawals
            (calculateWithdrawals accounts profile assumptions accumulationResult currentYear))
      = nat (lifeExpectancy profile - retirementAge profile + 1)
   \<and> (yearlyWithdrawals
         (calculateWithdrawals accounts profile assumptions accumulationResult currentYear) = []
        \<longleftrightarrow> lifeExpectancy profile < retirementAge profile)"
proof -
  let ?ys = "yearlyWithdrawals
      (calculateWithdrawals accounts profile assumptions accumulationResult currentYear)"
  have len: "length ?ys = nat (lifeExpectancy profile - retirementAge profile + 1)"
    by (simp add: calculateWithdrawals_def simulateYears_def Let_def fold_yearStep_length
        initialState_def)
  have "(?ys = []) = (nat (lifeExpectancy profile - retirementAge profile + 1) = 0)"
    using len by (metis length_0_conv)
  then show ?thesis using len by auto
qed

text \<open>
  C8, as claimed, fails: with life expectancy equal to the retirement age (65) the
  sequence of Scenario A is not empty.
\<close>

theorem zero_year_horizon_counterexample:
  "lifeExpectancy (scenarioA_profile\<lparr>lifeExpectancy := 65\<rparr>)
      \<le> retirementAge (scenarioA_profile\<lparr>lifeExpectancy := 65\<rparr>)
   \<and> yearlyWithdrawals
        (calculateWithdrawals scenarioA_accounts (scenarioA_profile\<lparr>lifeExpectancy := 65\<rparr>)
           scenarioA_assumptions scenarioA_accumulation 2025) \<noteq> []"
  by (simp add: calculateWithdrawals_def simulateYears_def scenarioA_profile_def Let_def
      yearStep_def split: prod.splits)

text \<open>
  C1. In Scenario A (RRSP 500000, TFSA 100000, ages 65 to 66, no benefit income, zero
  inflation and return, withdrawal rate 0.04 of 600000) the first yearly record withdraws
  at least 24000 from the RRSP (exactly 24000) and exactly 0 from the TFSA.
\<close>

theorem scenarioA_first_year:
  "\<exists>year1 later w.
      yearlyWithdrawals
        (calculateWithdrawals scenarioA_accounts scenarioA_profile scenarioA_assumptions
           scenarioA_accumulation currentYear) = year1 # later
      \<and> map_of (withdrawals year1) ''rrsp'' = Some w \<and> 24000 \<le> w \<and> w = 24000
      \<and> map_of (withdrawals year1) ''tfsa'' = Some 0
      \<and> y_targetSpending year1 = 24000"
  by (simp add: calculateWithdrawals_def simulateYears_def yearStep_def initialState_def
      initialAccountStates_def scenarioA_accounts_def scenarioA_profile_def
      scenarioA_assumptions_def scenarioA_accumulation_def performTaxOptimizedWithdrawal_def
      initialWithdrawalState_def rrifBody_def bracketFillBody_def taxFreeBody_def
      taxableBody_def extraRrspBody_def lookup0_def addTo_def recordDepletion_def isPreTax_def
      calculateRRIFMinimum_def RRIF_START_AGE_def sumBalances_def sumWithdrawn_def cppOas_def
      TAX_BRACKETS_FEDERAL_def Let_def numeral_2_eq_2 upt_rec)

subsection \<open>One year, taken apart\<close>

lemma yearStep_decomp:
  obtains T R oi y where
    "st_accountStates (yearStep P A cy i st) =
       map (\<lambda>acc. acc\<lparr>balance := balance acc * (1 + retirementReturnRate A)\<rparr>)
         (fst (performTaxOptimizedWithdrawal (st_accountStates st) T R oi P
                (st_accountDepletionAges st) (retirementAge P + int i)))"
    "st_accountDepletionAges (yearStep P A cy i st) =
       depletionAges (snd (performTaxOptimizedWithdrawal (st_accountStates st) T R oi P
                (st_accountDepletionAges st) (retirementAge P + int i)))"
    "st_yearlyWithdrawals (yearStep P A cy i st) = st_yearlyWithdrawals st @ [y]"
    "withdrawals y = byAccount (snd (performTaxOptimizedWithdrawal (st_accountStates st) T R oi P
                (st_accountDepletionAges st) (retirementAge P + int i)))"
    "totalWithdrawal y = total (snd (performTaxOptimizedWithdrawal (st_accountStates st) T R oi P
                (st_accountDepletionAges st) (retirementAge P + int i)))"
    "grossIncome y = totalWithdrawal y + cppOasIncome y"
    "remainingBalances y = foldl (\<lambda>m acc. AList.update (s_id acc) (balance acc) m) []
                             (st_accountStates (yearStep P A cy i st))"
proof -
  define oi where "oi = cppOas (cppOasBenefit P) (cppOasStartAge P) (retirementAge P + int i)
                           (inflationRate A) (retirementAge P + int i - currentAge P)
           + (case spouse P of
              None \<Rightarrow> 0
            | Some sp \<Rightarrow> cppOas (cppOasBenefit sp) (cppOasStartAge sp)
                          (currentAge sp + (cy + (retirementAge P - currentAge P) + int i - cy))
                          (inflationRate A) (cy + (retirementAge P - currentAge P) + int i - cy))"
  define R where "R = calculateRRIFMinimum (of_int (retirementAge P + int i))
                         (sumBalances (filter (\<lambda>a. s_owner a = owner_primary \<and> isPreTax (s_type a))
                            (st_accountStates st)))
                 + calculateRRIFMinimum (of_int (case spouse P of
                        Some sp \<Rightarrow> currentAge sp + (cy + (retirementAge P - currentAge P) + int i - cy)
                      | None \<Rightarrow> retirementAge P + int i))
                        (sumBalances (filter (\<lambda>a. s_owner a = owner_spouse \<and> isPreTax (s_type a))
                            (st_accountStates st)))"
  define y where "y = last (st_yearlyWithdrawals (yearStep P A cy i st))"
  note defs = yearStep_def Let_def case_prod_beta oi_def R_def y_def
  show ?thesis
  proof (rule that[of "st_targetSpending st" R oi y])
    show "st_accountStates (yearStep P A cy i st) =
       map (\<lambda>acc. acc\<lparr>balance := balance acc * (1 + retirementReturnRate A)\<rparr>)
         (fst (performTaxOptimizedWithdrawal (st_accountStates st) (st_targetSpending st) R oi P
                (st_accountDepletionAges st) (retirementAge P + int i)))"
      by (simp only: defs SimState.select_convs YearlyWithdrawal.select_convs last_snoc)
    show "st_accountDepletionAges (yearStep P A cy i st) =
       depletionAges (snd (performTaxOptimizedWithdrawal (st_accountStates st) (st_targetSpending st) R oi P
                (st_accountDepletionAges st) (retirementAge P + int i)))"
      by (simp only: defs SimState.select_convs YearlyWithdrawal.select_convs last_snoc)
    show "st_yearlyWithdrawals (yearStep P A cy i st) = st_yearlyWithdrawals st @ [y]"
      by (simp only: defs SimState.select_convs YearlyWithdrawal.select_convs last_snoc)
    show "withdrawals y = byAccount (snd (performTaxOptimizedWithdrawal (st_accountStates st) (st_targetSpending st) R oi P
                (st_accountDepletionAges st) (retirementAge P + int i)))"
      by (simp only: defs SimState.select_convs YearlyWithdrawal.select_convs last_snoc)
    show "totalWithdrawal y = total (snd (performTaxOptimizedWithdrawal (st_accountStates st) (st_targetSpending st) R oi P
                (st_accountDepletionAges st) (retirementAge P + int i)))"
      by (simp only: defs SimState.select_convs YearlyWithdrawal.select_convs last_snoc)
    show "grossIncome y = totalWithdrawal y + cppOasIncome y"
      by (simp only: defs SimState.select_convs YearlyWithdrawal.select_convs last_snoc)
    show "remainingBalances y = foldl (\<lambda>m acc. AList.update (s_id acc) (balance acc) m) []
                             (st_accountStates (yearStep P A cy i st))"
      by (simp only: defs SimState.select_convs YearlyWithdrawal.select_convs last_snoc)
  qed
qed

lemma yearStep_portfolio:
  "st_portfolioDepletionAge (yearStep P A cy i st) =
     (if sumBalances (st_accountStates st) \<le> 0 \<and> st_portfolioDepletionAge st = None
      then Some (retirementAge P + int i) else st_portfolioDepletionAge st)"
  by (simp only: yearStep_def Let_def case_prod_beta SimState.select_convs)

lemma simulateYears_Suc:
  "simulateYears accounts P A acc cy (Suc n) = yearStep P A cy n (simulateYears accounts P A acc cy n)"
  by (simp add: simulateYears_def)

lemma simulateYears_0:
  "simulateYears accounts P A acc cy 0 = initialState accounts A acc"
  by (simp add: simulateYears_def)

subsection \<open>Totals\<close>

lemma simulateYears_records:
  "list_all (\<lambda>y. sum_list (map snd (withdrawals y)) = totalWithdrawal y
              \<and> totalWithdrawal y + cppOasIncome y = grossIncome y)
     (st_yearlyWithdrawals (simulateYears accounts P A acc cy n))"
proof (induction n)
  case 0
  show ?case by (simp add: simulateYears_0 initialState_def)
next
  case (Suc n)
  obtain T R oi y where
    ys: "st_yearlyWithdrawals (yearStep P A cy n (simulateYears accounts P A acc cy n))
           = st_yearlyWithdrawals (simulateYears accounts P A acc cy n) @ [y]"
    and w: "withdrawals y = byAccount (snd (performTaxOptimizedWithdrawal
              (st_accountStates (simulateYears accounts P A acc cy n)) T R oi P
              (st_accountDepletionAges (simulateYears accounts P A acc cy n)) (retirementAge P + int n)))"
    and t: "totalWithdrawal y = total (snd (performTaxOptimizedWithdrawal
              (st_accountStates (simulateYears accounts P A acc cy n)) T R oi P
              (st_accountDepletionAges (simulateYears accounts P A acc cy n)) (retirementAge P + int n)))"
    and g: "grossIncome y = totalWithdrawal y + cppOasIncome y"
    by (rule yearStep_decomp[of P A cy n "simulateYears accounts P A acc cy n"])
  have "sum_list (map snd (withdrawals y)) = totalWithdrawal y"
    by (simp only: w t perform_conservation)
  with Suc g show ?case by (simp add: simulateYears_Suc ys)
qed

text \<open>
  In the exact arithmetic of the embedding, in every yearly record of the result the amounts
  of the per-account withdrawal map add up to \<open>totalWithdrawal\<close>, and \<open>totalWithdrawal\<close>
  plus the CPP/OAS income is \<open>grossIncome\<close>.
\<close>

lemma withdrawal_totals_exact:
  "list_all (\<lambda>y. sum_list (map snd (withdrawals y)) = totalWithdrawal y
              \<and> totalWithdrawal y + cppOasIncome y = grossIncome y)
     (yearlyWithdrawals (calculateWithdrawals accounts profile assumptions accumulationResult currentYear))"
  using simulateYears_records[of accounts profile assumptions accumulationResult currentYear]
  by (simp add: calculateWithdrawals_def Let_def)

text \<open>
  C4, as the code has it. In every yearly record of the result \<open>totalWithdrawal\<close> plus the
  CPP/OAS income of the year is \<open>grossIncome\<close>: the source computes \<open>grossIncome\<close> by this
  one addition of the two recorded numbers, so the equality does not depend on rounding.
\<close>

theorem gross_income_is_withdrawal_plus_benefits:
  "list_all (\<lambda>y. totalWithdrawal y + cppOasIncome y = grossIncome y)
     (yearlyWithdrawals (calculateWithdrawals accounts profile assumptions accumulationResult currentYear))"
proof -
  have "list_all (\<lambda>y. sum_list (map snd (withdrawals y)) = totalWithdrawal y
              \<and> totalWithdrawal y + cppOasIncome y = grossIncome y)
     (st_yearlyWithdrawals (simulateYears accounts profile assumptions accumulationResult currentYear
        (nat (lifeExpectancy profile - retirementAge profile + 1))))"
    by (rule simulateYears_records)
  then have "list_all (\<lambda>y. totalWithdrawal y + cppOasIncome y = grossIncome y)
     (st_yearlyWithdrawals (simulateYears accounts profile assumptions accumulationResult currentYear
        (nat (lifeExpectancy profile - retirementAge profile + 1))))"
    by (simp add: list_all_iff)
  then show ?thesis by (simp add: calculateWithdrawals_def Let_def)
qed

subsection \<open>Totals in double precision\<close>

text \<open>
  What \<open>fl\<close> returns: \<open>binaryExponent x\<close> is the binary exponent of \<open>x\<close>, and \<open>fl x\<close> is a
  multiple \<open>n\<close> of the spacing of the doubles at that exponent with \<open>\<bar>n\<bar> \<le> 2 ^ 53\<close>, at most
  half a spacing away from \<open>x\<close>.
\<close>

lemma roundHalfEven_error: "\<bar>of_int (roundHalfEven r) - r\<bar> \<le> 1 / 2"
proof -
  have "of_int \<lfloor>r\<rfloor> \<le> r" "r < of_int \<lfloor>r\<rfloor> + 1" by linarith+
  then show ?thesis
    by (auto simp: roundHalfEven_def Let_def)
qed

lemma bitlen_powi_bounds:
  assumes "0 < m"
  shows "(2::real) powi (bitlen m - 1) \<le> of_int m" "of_int m + 1 \<le> (2::real) powi (bitlen m)"
proof -
  have b: "2 ^ nat (bitlen m - 1) \<le> m" "m < 2 ^ nat (bitlen m)"
    using bitlen_bounds[OF assms] by auto
  have pos: "1 \<le> bitlen m" using assms by (auto simp: bitlen_alt_def)
  have "(2::real) powi (bitlen m - 1) = 2 ^ nat (bitlen m - 1)"
    using pos by (simp add: power_int_def)
  also have "\<dots> = of_int (2 ^ nat (bitlen m - 1))" by simp
  also have "\<dots> \<le> of_int m" using b(1) by (simp only: of_int_le_iff)
  finally show "(2::real) powi (bitlen m - 1) \<le> of_int m" .
  have "m + 1 \<le> 2 ^ nat (bitlen m)" using b(2) by simp
  then have "(of_int (m + 1) :: real) \<le> of_int (2 ^ nat (bitlen m))" by (simp only: of_int_le_iff)
  moreover have "(2::real) powi (bitlen m) = 2 ^ nat (bitlen m)"
    using pos by (simp add: power_int_def)
  ultimately show "of_int m + 1 \<le> (2::real) powi (bitlen m)" by simp
qed

lemma binaryExponent_bounds:
  assumes "x \<noteq> 0"
  shows "(2::real) powi binaryExponent x \<le> \<bar>x\<bar>" "\<bar>x\<bar> < (2::real) powi (binaryExponent x + 1)"
proof -
  show "(2::real) powi binaryExponent x \<le> \<bar>x\<bar>"
  proof (cases "1 \<le> \<bar>x\<bar>")
    case True
    then have m: "0 < \<lfloor>\<bar>x\<bar>\<rfloor>" by linarith
    have "(2::real) powi (bitlen \<lfloor>\<bar>x\<bar>\<rfloor> - 1) \<le> of_int \<lfloor>\<bar>x\<bar>\<rfloor>" by (rule bitlen_powi_bounds(1)[OF m])
    also have "\<dots> \<le> \<bar>x\<bar>" by linarith
    finally show ?thesis using True by (simp add: binaryExponent_def)
  next
    case False
    define y where "y = 1 / \<bar>x\<bar>"
    have xpos: "0 < \<bar>x\<bar>" using assms by simp
    have y1: "1 < y" using False xpos by (simp add: y_def)
    define m where "m = \<lceil>y\<rceil> - 1"
    have m: "0 < m" "of_int m < y" "y \<le> of_int m + 1" using y1 unfolding m_def by linarith+
    have "y \<le> (2::real) powi (bitlen m)" using bitlen_powi_bounds(2)[OF m(1)] m(3) by linarith
    then have "1 / \<bar>x\<bar> \<le> (2::real) powi (bitlen m)" by (simp add: y_def)
    then have "1 \<le> (2::real) powi (bitlen m) * \<bar>x\<bar>" using xpos by (simp add: field_simps)
    then have "(2::real) powi (- bitlen m) \<le> \<bar>x\<bar>"
      by (simp add: power_int_minus field_simps)
    then show ?thesis using False by (simp add: binaryExponent_def m_def y_def)
  qed
  show "\<bar>x\<bar> < (2::real) powi (binaryExponent x + 1)"
  proof (cases "1 \<le> \<bar>x\<bar>")
    case True
    then have m: "0 < \<lfloor>\<bar>x\<bar>\<rfloor>" by linarith
    have "\<bar>x\<bar> < of_int \<lfloor>\<bar>x\<bar>\<rfloor> + 1" by linarith
    also have "\<dots> \<le> (2::real) powi (bitlen \<lfloor>\<bar>x\<bar>\<rfloor>)" by (rule bitlen_powi_bounds(2)[OF m])
    finally show ?thesis using True by (simp add: binaryExponent_def)
  next
    case False
    define y where "y = 1 / \<bar>x\<bar>"
    have xpos: "0 < \<bar>x\<bar>" using assms by simp
    have y1: "1 < y" using False xpos by (simp add: y_def)
    define m where "m = \<lceil>y\<rceil> - 1"
    have m: "0 < m" "of_int m < y" "y \<le> of_int m + 1" using y1 unfolding m_def by linarith+
    have p: "0 < (2::real) powi (bitlen m - 1)" by simp
    have "(2::real) powi (bitlen m - 1) < y" using bitlen_powi_bounds(1)[OF m(1)] m(2) by linarith
    then have "(2::real) powi (bitlen m - 1) < 1 / \<bar>x\<bar>" by (simp add: y_def)
    then have "(2::real) powi (bitlen m - 1) * \<bar>x\<bar> < 1" using xpos by (simp add: field_simps)
    then have "\<bar>x\<bar> * (2::real) powi (bitlen m - 1) < 1" by (simp add: mult.commute)
    then have "\<bar>x\<bar> < 1 / (2::real) powi (bitlen m - 1)"
      by (simp only: pos_less_divide_eq[OF p])
    moreover have "(2::real) powi (- bitlen m + 1) = 1 / (2::real) powi (bitlen m - 1)"
      by (metis minus_diff_eq power_int_minus inverse_eq_divide add.commute uminus_add_conv_diff)
    ultimately have "\<bar>x\<bar> < (2::real) powi (- bitlen m + 1)"
      by simp
    then show ?thesis using False by (simp add: binaryExponent_def m_def y_def)
  qed
qed

lemma fl_nearest:
  assumes "x \<noteq> 0"
  shows "\<exists>n. fl x = of_int n * (2::real) powi (max (binaryExponent x) (- 1022) - 52)
           \<and> \<bar>n\<bar> \<le> 2 ^ 53
           \<and> \<bar>fl x - x\<bar> \<le> (2::real) powi (max (binaryExponent x) (- 1022) - 52) / 2"
proof -
  define E where "E = max (binaryExponent x) (- 1022)"
  define q :: real where "q = (2::real) powi (E - 52)"
  define n where "n = roundHalfEven (x / q)"
  have q: "0 < q" by (simp add: q_def)
  have f: "fl x = of_int n * q"
    using assms by (simp add: fl_def Let_def q_def n_def E_def)
  have r: "\<bar>of_int n - x / q\<bar> \<le> 1 / 2" unfolding n_def by (rule roundHalfEven_error)
  then have "\<bar>of_int n - x / q\<bar> * q \<le> 1 / 2 * q"
    using q by (simp only: mult_le_cancel_right_pos)
  moreover have "\<bar>of_int n - x / q\<bar> * q = \<bar>fl x - x\<bar>"
  proof -
    have "\<bar>of_int n - x / q\<bar> * q = \<bar>(of_int n - x / q) * q\<bar>"
      using q by (simp add: abs_mult)
    also have "(of_int n - x / q) * q = fl x - x"
      using q by (simp add: f field_simps)
    finally show ?thesis .
  qed
  ultimately have err: "\<bar>fl x - x\<bar> \<le> q / 2" by simp
  have "\<bar>x\<bar> < (2::real) powi (binaryExponent x + 1)"
    by (rule binaryExponent_bounds(2)[OF assms])
  also have "\<dots> \<le> (2::real) powi (E + 1)"
    by (rule power_int_increasing) (simp_all add: E_def)
  also have "(2::real) powi (E + 1) = q * 2 ^ 53"
  proof -
    have "E + 1 = (E - 52) + 53" by simp
    then have "(2::real) powi (E + 1) = 2 powi ((E - 52) + 53)" by (rule arg_cong)
    also have "\<dots> = 2 powi (E - 52) * 2 powi 53"
      by (rule power_int_add) simp
    finally show ?thesis by (simp add: q_def)
  qed
  finally have "\<bar>x\<bar> / q < 2 ^ 53" using q by (simp add: field_simps)
  then have "\<bar>x / q\<bar> < 2 ^ 53" using q by simp
  with r have "\<bar>real_of_int n\<bar> < 2 ^ 53 + 1" by linarith
  then have "real_of_int \<bar>n\<bar> < real_of_int (2 ^ 53 + 1)" by simp
  then have "\<bar>n\<bar> < 2 ^ 53 + 1" by (simp only: of_int_less_iff)
  then have "\<bar>n\<bar> \<le> 2 ^ 53" by simp
  with f err show ?thesis unfolding q_def E_def by blast
qed

text \<open>
  The rounding function on familiar values: small integers and 0.5 are doubles, 0.1 is not,
  and \<open>0.1 + 0.2\<close> is one unit in the last place above the double of 0.3.
\<close>

lemma fl_samples:
  "fl 1 = 1 \<and> fl 57375 = 57375 \<and> fl 0.5 = 0.5
   \<and> fl 0.1 = 3602879701896397 / 2 ^ 55
   \<and> fl (fl 0.1 + fl 0.2) = fl 0.3 + 1 / 2 ^ 54"
  by code_simp

text \<open>
  The arguments of the first year's call: in the run of the rounding scenario the first
  yearly record shows a RRIF minimum of 0, a CPP/OAS income of 0 and the target
  \<open>totalPortfolio * safeWithdrawalRate\<close> (here the exact product; the source rounds it).
\<close>

lemma rounding_first_year_arguments:
  "rmdAmount (last (st_yearlyWithdrawals (yearStep scenarioA_profile roundingAssumptions cy 0
       (initialState roundingAccounts roundingAssumptions roundingAccumulation)))) = 0
   \<and> cppOasIncome (last (st_yearlyWithdrawals (yearStep scenarioA_profile roundingAssumptions cy 0
       (initialState roundingAccounts roundingAssumptions roundingAccumulation)))) = 0
   \<and> y_targetSpending (last (st_yearlyWithdrawals (yearStep scenarioA_profile roundingAssumptions
       cy 0 (initialState roundingAccounts roundingAssumptions roundingAccumulation))))
       = totalAtRetirement roundingAccumulation * safeWithdrawalRate roundingAssumptions"
proof -
  have age: "retirementAge scenarioA_profile + int 0 = 65" "spouse scenarioA_profile = None"
    "cppOasBenefit scenarioA_profile = Some 0"
    by (simp_all add: scenarioA_profile_def)
  show ?thesis
    apply (simp only: yearStep_def Let_def case_prod_beta SimState.select_convs
        YearlyWithdrawal.select_convs last_snoc age option.case)
    apply (simp add: calculateRRIFMinimum_def RRIF_START_AGE_def cppOas_def initialState_def
        scenarioA_profile_def)
    done
qed

text \<open>
  The first year of the rounding scenario in doubles: 57375 from the RRSP (bracket fill),
  1000.1 from the TFSA, and the rest of the target, 21664.904000000002, from the RRSP again.
\<close>

lemma roundingFirstYear_result:
  "snd roundingFirstYear =
    \<lparr>total = 5500307192827347 / 2 ^ 36,
     rrspWithdrawal = 2715790422071837 / 2 ^ 35,
     taxFreeWithdrawal = 8796972631510221 / 2 ^ 43,
     taxableWithdrawal = 0, taxableGains = 0,
     byAccount = [(''rrsp'', 2715790422071837 / 2 ^ 35), (''tfsa'', 8796972631510221 / 2 ^ 43)],
     remainingNeed = 0, rrifRemaining = 0,
     depletionAges = [(''rrsp'', None), (''tfsa'', Some 65)]\<rparr>"
  by code_simp

lemma rounded_sum:
  "fl (fl (2715790422071837 / 34359738368) + 8796972631510221 / 8796093022208)
     = 5500307192827348 / 68719476736"
  by code_simp

text \<open>
  C4, as claimed, fails in the arithmetic of the code. In the first year of the rounding
  scenario the engine returns a total of 80040.004 (\<open>5500307192827347 / 2 ^ 36\<close>) and the
  map \<open>rrsp: 79039.90400000001\<close>, \<open>tfsa: 1000.1\<close>; the yearly record stores the two as
  \<open>totalWithdrawal\<close> and \<open>withdrawals\<close>. The entries of the map do not add up to the total,
  neither exactly nor added in doubles (which gives 80040.00400000002): the total is
  accumulated in step order, \<open>(57375 + 1000.1) + 21664.904000000002\<close>, the RRSP entry as
  \<open>57375 + 21664.904000000002\<close>, and the roundings differ.
\<close>

theorem rounded_withdrawal_totals_counterexample:
  "total (snd roundingFirstYear) = 5500307192827347 / 2 ^ 36
   \<and> byAccount (snd roundingFirstYear)
       = [(''rrsp'', 2715790422071837 / 2 ^ 35), (''tfsa'', 8796972631510221 / 2 ^ 43)]
   \<and> sum_list (map snd (byAccount (snd roundingFirstYear))) \<noteq> total (snd roundingFirstYear)
   \<and> foldl (\<lambda>sum w. fl (sum + w)) 0 (map snd (byAccount (snd roundingFirstYear)))
       \<noteq> total (snd roundingFirstYear)"
  by (simp add: roundingFirstYear_result rounded_sum)

subsection \<open>Depletion ages\<close>

lemma yearStep_depletion:
  assumes "map_of (st_accountDepletionAges st) k = Some (Some a)"
  shows "map_of (st_accountDepletionAges (yearStep P A cy i st)) k = Some (Some a)"
proof -
  obtain T R oi y where
    d: "st_accountDepletionAges (yearStep P A cy i st) =
       depletionAges (snd (performTaxOptimizedWithdrawal (st_accountStates st) T R oi P
                (st_accountDepletionAges st) (retirementAge P + int i)))"
    by (rule yearStep_decomp[of P A cy i st])
  show ?thesis by (simp only: d perform_depletion[OF assms])
qed

lemma simulateYears_depletion:
  assumes "map_of (st_accountDepletionAges (simulateYears accounts P A acc cy n)) k = Some (Some a)"
  shows "map_of (st_accountDepletionAges (simulateYears accounts P A acc cy (n + j))) k = Some (Some a)"
  by (induction j) (simp_all add: assms simulateYears_Suc yearStep_depletion)

lemma simulateYears_portfolio:
  assumes "st_portfolioDepletionAge (simulateYears accounts P A acc cy n) = Some a"
  shows "st_portfolioDepletionAge (simulateYears accounts P A acc cy (n + j)) = Some a"
  by (induction j) (simp_all add: assms simulateYears_Suc yearStep_portfolio)

text \<open>
  C9, as the code has it. A depletion age of an account, or of the portfolio, that is set
  after \<open>n\<close> simulated years is the same after any \<open>m \<ge> n\<close> years, and the result
  carries the maps of the last year. When the initial account balances add up to zero and
  the life expectancy is not below the retirement age (so that a first year is simulated),
  the portfolio depletion age of the result is the retirement age.
\<close>

theorem depletion_ages_never_overwritten:
  "(n \<le> m \<and> map_of (st_accountDepletionAges
                     (simulateYears accounts profile assumptions accumulationResult currentYear n)) k
              = Some (Some a)
      \<longrightarrow> map_of (st_accountDepletionAges
                     (simulateYears accounts profile assumptions accumulationResult currentYear m)) k
              = Some (Some a))
   \<and> (n \<le> m \<and> st_portfolioDepletionAge
                   (simulateYears accounts profile assumptions accumulationResult currentYear n) = Some a
      \<longrightarrow> st_portfolioDepletionAge
            (simulateYears accounts profile assumptions accumulationResult currentYear m) = Some a)
   \<and> accountDepletionAges
        (calculateWithdrawals accounts profile assumptions accumulationResult currentYear)
       = st_accountDepletionAges
           (simulateYears accounts profile assumptions accumulationResult currentYear
              (nat (lifeExpectancy profile - retirementAge profile + 1)))
   \<and> portfolioDepletionAge
        (calculateWithdrawals accounts profile assumptions accumulationResult currentYear)
       = st_portfolioDepletionAge
           (simulateYears accounts profile assumptions accumulationResult currentYear
              (nat (lifeExpectancy profile - retirementAge profile + 1)))
   \<and> (sumBalances (initialAccountStates accounts accumulationResult) = 0
        \<and> retirementAge profile \<le> lifeExpectancy profile
      \<longrightarrow> portfolioDepletionAge
            (calculateWithdrawals accounts profile assumptions accumulationResult currentYear)
          = Some (retirementAge profile))"
proof (intro conjI impI)
  let ?sim = "simulateYears accounts profile assumptions accumulationResult currentYear"
  show "map_of (st_accountDepletionAges (?sim m)) k = Some (Some a)"
    if "n \<le> m \<and> map_of (st_accountDepletionAges (?sim n)) k = Some (Some a)"
    using that simulateYears_depletion[of accounts profile assumptions accumulationResult
        currentYear n k a "m - n"] by simp
  show "st_portfolioDepletionAge (?sim m) = Some a"
    if "n \<le> m \<and> st_portfolioDepletionAge (?sim n) = Some a"
    using that simulateYears_portfolio[of accounts profile assumptions accumulationResult
        currentYear n a "m - n"] by simp
  show "accountDepletionAges
        (calculateWithdrawals accounts profile assumptions accumulationResult currentYear)
       = st_accountDepletionAges (?sim (nat (lifeExpectancy profile - retirementAge profile + 1)))"
    by (simp add: calculateWithdrawals_def Let_def)
  show "portfolioDepletionAge
        (calculateWithdrawals accounts profile assumptions accumulationResult currentYear)
       = st_portfolioDepletionAge (?sim (nat (lifeExpectancy profile - retirementAge profile + 1)))"
    by (simp add: calculateWithdrawals_def Let_def)
  show "portfolioDepletionAge
            (calculateWithdrawals accounts profile assumptions accumulationResult currentYear)
          = Some (retirementAge profile)"
    if z: "sumBalances (initialAccountStates accounts accumulationResult) = 0
        \<and> retirementAge profile \<le> lifeExpectancy profile"
  proof -
    have "st_portfolioDepletionAge (?sim (Suc 0)) = Some (retirementAge profile)"
      using z by (simp add: simulateYears_Suc simulateYears_0 yearStep_portfolio initialState_def)
    then have "st_portfolioDepletionAge
        (?sim (Suc 0 + nat (lifeExpectancy profile - retirementAge profile)))
          = Some (retirementAge profile)"
      by (rule simulateYears_portfolio)
    moreover have "Suc 0 + nat (lifeExpectancy profile - retirementAge profile)
        = nat (lifeExpectancy profile - retirementAge profile + 1)"
      using z by linarith
    ultimately show ?thesis by (simp add: calculateWithdrawals_def Let_def)
  qed
qed

lemmas sim_defs = yearStep_def initialState_def initialAccountStates_def
     performTaxOptimizedWithdrawal_def initialWithdrawalState_def rrifBody_def bracketFillBody_def taxFreeBody_def
     taxableBody_def extraRrspBody_def lookup0_def addTo_def recordDepletion_def isPreTax_def
     calculateRRIFMinimum_def RRIF_START_AGE_def sumBalances_def sumWithdrawn_def cppOas_def TAX_BRACKETS_FEDERAL_def
     Let_def

lemma drain_year1:
  "map_of (st_accountDepletionAges
     (simulateYears scenarioA_accounts scenarioA_profile drainAssumptions drainAccumulation 2025 1))
     ''rrsp'' = Some (Some 65)"
  by (simp add: simulateYears_def sim_defs scenarioA_accounts_def scenarioA_profile_def
      drainAssumptions_def drainAccumulation_def)

lemma drain_year2:
  "st_portfolioDepletionAge
     (simulateYears scenarioA_accounts scenarioA_profile drainAssumptions drainAccumulation 2025 2)
     = Some 66"
  by (simp add: simulateYears_def sim_defs scenarioA_accounts_def scenarioA_profile_def
      drainAssumptions_def drainAccumulation_def numeral_2_eq_2)

text \<open>
  Witness for C9: the RRSP emptied at 65 keeps that age in the second year, the portfolio
  found empty at 66 keeps that age in the third, and the portfolio that starts empty is
  depleted at the retirement age 65.
\<close>

theorem depletion_ages_never_overwritten_witness:
  "(1::nat) \<le> 2
   \<and> map_of (st_accountDepletionAges
        (simulateYears scenarioA_accounts scenarioA_profile drainAssumptions drainAccumulation 2025 1))
        ''rrsp'' = Some (Some 65)
   \<and> map_of (st_accountDepletionAges
        (simulateYears scenarioA_accounts scenarioA_profile drainAssumptions drainAccumulation 2025 2))
        ''rrsp'' = Some (Some 65)
   \<and> (2::nat) \<le> 3
   \<and> st_portfolioDepletionAge
        (simulateYears scenarioA_accounts scenarioA_profile drainAssumptions drainAccumulation 2025 2)
        = Some 66
   \<and> st_portfolioDepletionAge
        (simulateYears scenarioA_accounts scenarioA_profile drainAssumptions drainAccumulation 2025 3)
        = Some 66
   \<and> sumBalances (initialAccountStates scenarioA_accounts zeroAccumulation) = 0
   \<and> retirementAge scenarioA_profile \<le> lifeExpectancy scenarioA_profile
   \<and> portfolioDepletionAge
        (calculateWithdrawals scenarioA_accounts scenarioA_profile scenarioA_assumptions
           zeroAccumulation 2025) = Some 65"
proof -
  let ?drain = "simulateYears scenarioA_accounts scenarioA_profile drainAssumptions
                  drainAccumulation 2025"
  have z: "sumBalances (initialAccountStates scenarioA_accounts zeroAccumulation) = 0"
    by (simp add: initialAccountStates_def sumBalances_def lookup0_def scenarioA_accounts_def
        zeroAccumulation_def)
  have h: "retirementAge scenarioA_profile \<le> lifeExpectancy scenarioA_profile"
    and ra: "retirementAge scenarioA_profile = 65"
    by (simp_all add: scenarioA_profile_def)
  have le12: "(1::nat) \<le> 2" and le23: "(2::nat) \<le> 3" by simp_all
  have c1: "map_of (st_accountDepletionAges (?drain 2)) ''rrsp'' = Some (Some 65)"
    using depletion_ages_never_overwritten[of 1 2 scenarioA_accounts scenarioA_profile
        drainAssumptions drainAccumulation 2025 "''rrsp''" 65] le12 drain_year1
    by blast
  have c2: "st_portfolioDepletionAge (?drain 3) = Some 66"
    using depletion_ages_never_overwritten[of 2 3 scenarioA_accounts scenarioA_profile
        drainAssumptions drainAccumulation 2025 "''rrsp''" 66] le23 drain_year2
    by blast
  have c3: "portfolioDepletionAge
        (calculateWithdrawals scenarioA_accounts scenarioA_profile scenarioA_assumptions
           zeroAccumulation 2025) = Some (retirementAge scenarioA_profile)"
    using depletion_ages_never_overwritten[of 0 0 scenarioA_accounts scenarioA_profile
        scenarioA_assumptions zeroAccumulation 2025 "''rrsp''" 65] z h
    by blast
  show ?thesis
    using le12 le23 drain_year1 drain_year2 z h c1 c2 c3 ra by simp
qed

text \<open>
  C9, as claimed, fails: with an empty portfolio and a life expectancy (64) below the
  retirement age (65) no year is simulated and the portfolio depletion age stays unset.
\<close>

theorem zero_portfolio_negative_horizon_counterexample:
  "sumBalances (initialAccountStates scenarioA_accounts zeroAccumulation) = 0
   \<and> portfolioDepletionAge
       (calculateWithdrawals scenarioA_accounts (scenarioA_profile\<lparr>lifeExpectancy := 64\<rparr>)
          scenarioA_assumptions zeroAccumulation 2025) = None
   \<and> retirementAge (scenarioA_profile\<lparr>lifeExpectancy := 64\<rparr>) = 65"
  by (simp add: calculateWithdrawals_def simulateYears_def initialState_def
      initialAccountStates_def sumBalances_def lookup0_def scenarioA_accounts_def
      scenarioA_profile_def zeroAccumulation_def Let_def)

subsection \<open>Balances\<close>






subsection \<open>Cost basis of taxable accounts\<close>


lemma trackedBasis_other:
  assumes "getTaxTreatment (s_type acc) \<noteq> taxable"
  shows "trackedBasis (acc\<lparr>balance := b\<rparr>)"
  using assms by (simp add: trackedBasis_def)








text \<open>
  The taxable step works on the accounts as the year began: the three steps before it
  leave every taxable account untouched and change no account's type.
\<close>

lemma forAccounts_types:
  assumes ty: "\<And>acc s. s_type (fst (body acc s)) = s_type acc"
  shows "list_all2 (\<lambda>a a'. s_type a' = s_type a \<and> (\<not> sel a \<longrightarrow> a' = a)) accs
           (fst (forAccounts sel brk body accs s))"
proof (induction accs arbitrary: s)
  case Nil
  show ?case by simp
next
  case (Cons acc accs)
  show ?case
  proof (cases "sel acc \<and> \<not> brk s")
    case True
    then show ?thesis
      using Cons.IH[of "snd (body acc s)"] ty[of acc s] by (simp add: case_prod_beta)
  next
    case False
    then show ?thesis
      using Cons.IH[of s] by (auto simp: case_prod_beta list_all2_same)
  qed
qed

lemma taxable_untouched:
  assumes ty: "\<And>acc s. s_type (fst (body acc s)) = s_type acc"
    and sel: "\<And>acc. sel acc \<Longrightarrow> getTaxTreatment (s_type acc) \<noteq> taxable"
  shows "list_all2 (\<lambda>a a'. s_type a' = s_type a
                      \<and> (getTaxTreatment (s_type a) = taxable \<longrightarrow> a' = a)) accs
           (fst (forAccounts sel brk body accs s))"
  using forAccounts_types[of body sel accs brk s, OF ty] sel
  by (auto elim!: list_all2_mono)

lemma taxable_untouched_trans:
  fixes xs ys zs :: "AccountState list"
  assumes "list_all2 (\<lambda>a a'. s_type a' = s_type a
                      \<and> (getTaxTreatment (s_type a) = taxable \<longrightarrow> a' = a)) xs ys"
    and "list_all2 (\<lambda>a a'. s_type a' = s_type a
                      \<and> (getTaxTreatment (s_type a) = taxable \<longrightarrow> a' = a)) ys zs"
  shows "list_all2 (\<lambda>a a'. s_type a' = s_type a
                      \<and> (getTaxTreatment (s_type a) = taxable \<longrightarrow> a' = a)) xs zs"
proof -
  have len: "length xs = length ys" "length ys = length zs"
    using assms by (simp_all add: list_all2_lengthD)
  have "\<forall>i<length xs. s_type (zs ! i) = s_type (xs ! i)
          \<and> (getTaxTreatment (s_type (xs ! i)) = taxable \<longrightarrow> zs ! i = xs ! i)"
  proof (intro allI impI)
    fix i assume i: "i < length xs"
    have 1: "s_type (ys ! i) = s_type (xs ! i)
          \<and> (getTaxTreatment (s_type (xs ! i)) = taxable \<longrightarrow> ys ! i = xs ! i)"
      using assms(1) i by (simp add: list_all2_conv_all_nth)
    have 2: "s_type (zs ! i) = s_type (ys ! i)
          \<and> (getTaxTreatment (s_type (ys ! i)) = taxable \<longrightarrow> zs ! i = ys ! i)"
      using assms(2) i len by (simp add: list_all2_conv_all_nth)
    show "s_type (zs ! i) = s_type (xs ! i)
          \<and> (getTaxTreatment (s_type (xs ! i)) = taxable \<longrightarrow> zs ! i = xs ! i)"
      using 1 2 by auto
  qed
  then show ?thesis using len by (simp add: list_all2_conv_all_nth)
qed

lemma taxable_untouched_filter:
  fixes xs ys :: "AccountState list"
  assumes "list_all2 (\<lambda>a a'. s_type a' = s_type a
                      \<and> (getTaxTreatment (s_type a) = taxable \<longrightarrow> a' = a)) xs ys"
  shows "filter (\<lambda>a. getTaxTreatment (s_type a) = taxable) ys
           = filter (\<lambda>a. getTaxTreatment (s_type a) = taxable) xs"
  using assms by (induction rule: list_all2_induct) auto

lemma taxable_step_receives_year_start_accounts:
  "filter (\<lambda>a. getTaxTreatment (s_type a) = taxable)
     (fst (forAccounts (\<lambda>acc. getTaxTreatment (s_type acc) = tax_free) brk3 (taxFreeBody age)
        (fst (forAccounts (\<lambda>acc. isPreTax (s_type acc)) brk2 (bracketFillBody sp oi age)
           (fst (forAccounts (\<lambda>acc. isPreTax (s_type acc)) brk1 (rrifBody age) accs s1))
           s2))
        s3))
   = filter (\<lambda>a. getTaxTreatment (s_type a) = taxable) accs"
proof -
  let ?a1 = "fst (forAccounts (\<lambda>acc. isPreTax (s_type acc)) brk1 (rrifBody age) accs s1)"
  let ?a2 = "fst (forAccounts (\<lambda>acc. isPreTax (s_type acc)) brk2 (bracketFillBody sp oi age)
                ?a1 s2)"
  let ?a3 = "fst (forAccounts (\<lambda>acc. getTaxTreatment (s_type acc) = tax_free) brk3
                (taxFreeBody age) ?a2 s3)"
  let ?T = "\<lambda>a a'. s_type a' = s_type a \<and> (getTaxTreatment (s_type a) = taxable \<longrightarrow> a' = a)"
  have t1: "list_all2 ?T accs ?a1"
    by (rule taxable_untouched) (simp_all add: rrifBody_def Let_def isPreTax_def)
  have t2: "list_all2 ?T ?a1 ?a2"
    by (rule taxable_untouched) (simp_all add: bracketFillBody_def Let_def isPreTax_def)
  have t3: "list_all2 ?T ?a2 ?a3"
    by (rule taxable_untouched) (simp_all add: taxFreeBody_def Let_def)
  have "list_all2 ?T accs ?a3"
    by (rule taxable_untouched_trans[OF taxable_untouched_trans[OF t1 t2] t3])
  then show ?thesis by (rule taxable_untouched_filter)
qed




end
